theory Spec2Isabelle
  imports Main "HOL-Library.Multiset"
begin

section \<open>Thrown values and results\<close>

text \<open>
  A JavaScript exception is a value. The values thrown by the calls of the model are
  \<open>Error\<close> instances, with their \<open>message\<close> and \<open>stack\<close>, or other values
  that have a string conversion. A call that may throw returns \<open>thrown + 'a\<close>, with
  \<open>Inl\<close> for the thrown value.
\<close>

datatype thrown =
    ErrorObj string "string option"
  | NonError string

section \<open>Mongoose collections\<close>

text \<open>
  A collection is the list of its documents in insertion order. Every document has the
  \<open>_id\<close> the store gave it and, since both ledger schemas set \<open>timestamps: true\<close>, the
  \<open>createdAt\<close> instant of its creation (milliseconds). The store hands out fresh
  identifiers from a counter.
\<close>

record 'p doc =
  doc_id :: nat
  createdAt :: nat
  payload :: 'p

record 'p collection =
  docs :: "'p doc list"
  next_id :: nat

text \<open>
  Each persistence call is a round trip that may fail; whether it does is decided by the
  environment, given to the model as an optional thrown value per call. A failed call
  leaves the collection as it was.
\<close>

definition create :: "thrown option \<Rightarrow> nat \<Rightarrow> 'p \<Rightarrow> 'p collection \<Rightarrow> (thrown + unit) \<times> 'p collection" where
  "create fault now p c =
     (case fault of
        Some e \<Rightarrow> (Inl e, c)
      | None \<Rightarrow>
          (Inr (),
           c\<lparr>docs := docs c @ [\<lparr>doc_id = next_id c, createdAt = now, payload = p\<rparr>],
             next_id := Suc (next_id c)\<rparr>))"

definition countDocuments :: "thrown option \<Rightarrow> 'p collection \<Rightarrow> thrown + nat" where
  "countDocuments fault c =
     (case fault of Some e \<Rightarrow> Inl e | None \<Rightarrow> Inr (length (docs c)))"

text \<open>
  \<open>Model.find().sort({ createdAt: 1 }).limit(n).select("_id").lean()\<close>. Among
  documents created at the same instant the model takes the insertion order.
\<close>

definition find_oldest_ids :: "thrown option \<Rightarrow> nat \<Rightarrow> 'p collection \<Rightarrow> thrown + nat list" where
  "find_oldest_ids fault n c =
     (case fault of
        Some e \<Rightarrow> Inl e
      | None \<Rightarrow> Inr (map doc_id (take n (sort_key createdAt (docs c)))))"

text \<open>\<open>Model.deleteMany({ _id: { $in: ids } })\<close>\<close>

definition deleteMany :: "thrown option \<Rightarrow> nat list \<Rightarrow> 'p collection \<Rightarrow> (thrown + unit) \<times> 'p collection" where
  "deleteMany fault ids c =
     (case fault of
        Some e \<Rightarrow> (Inl e, c)
      | None \<Rightarrow> (Inr (), c\<lparr>docs := filter (\<lambda>d. doc_id d \<notin> set ids) (docs c)\<rparr>))"


text \<open>
  What the store guarantees of a collection: identifiers are unique and all of them were
  handed out by the counter.
\<close>

definition wf_collection :: "'p collection \<Rightarrow> bool" where
  "wf_collection c =
     (distinct (map doc_id (docs c)) \<and> list_all (\<lambda>d. doc_id d < next_id c) (docs c))"

record faults =
  create_fault :: "thrown option"
  count_fault :: "thrown option"
  find_fault :: "thrown option"
  delete_fault :: "thrown option"

definition no_faults :: "faults \<Rightarrow> bool" where
  "no_faults fl =
     (create_fault fl = None \<and> count_fault fl = None \<and> find_fault fl = None \<and> delete_fault fl = None)"

section \<open>The documents of the database\<close>

record AppErrorPayload =
  ae_source :: string
  ae_message :: string
  ae_stack :: "string option"
  ae_path :: "string option"
  ae_method :: "string option"
  ae_status :: "int option"
  ae_adminTelegramId :: "int option"

record BroadcastPayload =
  bc_adminTelegramId :: int
  bc_text :: string
  bc_photoFileIds :: "string list"
  bc_totalRecipients :: nat
  bc_successCount :: nat
  bc_failedCount :: nat

text \<open>
  The fields of a user document that the handlers read or write. \<open>nutritionStatus\<close> is
  the optional field that the nutrition handlers of the admin router set (\<open>UserDoc\<close> in
  \<open>routes/utils.ts\<close>).
\<close>

record User =
  telegramId :: "int option"
  chatId :: "int option"
  isBot :: bool
  firstName :: "string option"
  lastName :: "string option"
  username :: "string option"
  photoFileId :: "string option"
  photoUrl :: "string option"
  isAdmin :: bool
  trainingStatus :: string
  nutritionStatus :: "string option"

record Order =
  order_id :: string
  telegramUserId :: int
  order_adminTelegramId :: "int option"
  order_status :: string
  decisionAt :: "nat option"
  completedAt :: "nat option"
  trainingDate :: "nat option"
  attachmentUrl :: "string option"
  attachmentFileName :: "string option"
  attachmentMimeType :: "string option"

record database =
  appErrors :: "AppErrorPayload collection"
  broadcasts :: "BroadcastPayload collection"
  users :: "User list"
  orders :: "Order list"
  nutritionOrders :: "Order list"

section \<open>The error ledger: \<open>logAppError\<close>\<close>

record LogContext =
  ctx_source :: string
  ctx_path :: "string option"
  ctx_method :: "string option"
  ctx_status :: "int option"
  ctx_adminTelegramId :: "int option"

text \<open>JavaScript truthiness of an optional string: present and not empty.\<close>

definition truthy :: "string option \<Rightarrow> bool" where
  "truthy s = (case s of None \<Rightarrow> False | Some v \<Rightarrow> v \<noteq> [])"

text \<open>
  The \<open>error: unknown\<close> parameter of \<open>logAppError\<close>. A caller passes what it caught.
  A value of the type \<open>thrown\<close> has the two conversions the function uses: the message
  and stack of an \<open>Error\<close> instance, the string of another value. But the parameter
  admits any value, also one that is not an \<open>Error\<close> instance and has no string
  conversion, such as \<open>Object.create(null)\<close>: for it \<open>String(error)\<close> throws a
  \<open>TypeError\<close>.
\<close>

datatype error_value = Caught thrown | Unconvertible

definition conversion_error :: thrown where
  "conversion_error = ErrorObj ''Cannot convert object to primitive value'' None"

definition message_text :: "thrown \<Rightarrow> string" where
  "message_text e = (case e of ErrorObj m st \<Rightarrow> m | NonError s \<Rightarrow> s)"

definition stack_text :: "thrown \<Rightarrow> string option" where
  "stack_text e = (case e of ErrorObj m st \<Rightarrow> st | NonError s \<Rightarrow> None)"

text \<open>Line 15: \<open>error instanceof Error ? error.message : String(error)\<close>, which may throw.\<close>

definition error_message :: "error_value \<Rightarrow> thrown + string" where
  "error_message err =
     (case err of
        Caught e \<Rightarrow> Inr (message_text e)
      | Unconvertible \<Rightarrow> Inl conversion_error)"

text \<open>Line 16: \<open>error instanceof Error ? error.stack : undefined\<close>\<close>

definition error_stack :: "error_value \<Rightarrow> string option" where
  "error_stack err = (case err of Caught e \<Rightarrow> stack_text e | Unconvertible \<Rightarrow> None)"

definition build_payload :: "string \<Rightarrow> string option \<Rightarrow> LogContext \<Rightarrow> AppErrorPayload" where
  "build_payload message stack ctx =
     \<lparr>ae_source = ctx_source ctx,
      ae_message = message,
      ae_stack = (if truthy stack then stack else None),
      ae_path = (if truthy (ctx_path ctx) then ctx_path ctx else None),
      ae_method = (if truthy (ctx_method ctx) then ctx_method ctx else None),
      ae_status = ctx_status ctx,
      ae_adminTelegramId = ctx_adminTelegramId ctx\<rparr>"

text \<open>
  The body of the \<open>try\<close> block (lines 18 to 53): create the document, count, and when the
  count is above 500 find the identifiers of the \<open>total - 500\<close> oldest documents and
  delete them. The first failing call ends the block with its thrown value; what the
  earlier calls wrote stays written.
\<close>

definition logAppError_try ::
  "faults \<Rightarrow> nat \<Rightarrow> string \<Rightarrow> string option \<Rightarrow> LogContext \<Rightarrow> AppErrorPayload collection
     \<Rightarrow> (thrown + unit) \<times> AppErrorPayload collection" where
  "logAppError_try fl now message stack ctx c =
     (case create (create_fault fl) now (build_payload message stack ctx) c of
        (Inl e, c1) \<Rightarrow> (Inl e, c1)
      | (Inr u, c1) \<Rightarrow>
          (case countDocuments (count_fault fl) c1 of
             Inl e \<Rightarrow> (Inl e, c1)
           | Inr total' \<Rightarrow>
               if total' > 500 then
                 (let extra = total' - 500 in
                  case find_oldest_ids (find_fault fl) extra c1 of
                    Inl e \<Rightarrow> (Inl e, c1)
                  | Inr oldIds \<Rightarrow>
                      if oldIds \<noteq> [] then deleteMany (delete_fault fl) oldIds c1
                      else (Inr (), c1))
               else (Inr (), c1)))"

text \<open>
  The whole function. Message and stack are read off the error value before the
  \<open>try\<close> (lines 15 and 16): a throw there leaves the function, with nothing written.
  Then the block runs, and the empty \<open>catch\<close> turns a thrown value into a normal
  return.
\<close>

definition logAppError ::
  "faults \<Rightarrow> nat \<Rightarrow> error_value \<Rightarrow> LogContext \<Rightarrow> database \<Rightarrow> (thrown + unit) \<times> database" where
  "logAppError fl now err ctx db =
     (case error_message err of
        Inl e \<Rightarrow> (Inl e, db)
      | Inr message \<Rightarrow>
          (let stack = error_stack err
           in case logAppError_try fl now message stack ctx (appErrors db) of
                (Inl e, c) \<Rightarrow> (Inr (), db\<lparr>appErrors := c\<rparr>)
              | (Inr u, c) \<Rightarrow> (Inr (), db\<lparr>appErrors := c\<rparr>)))"

text \<open>
  A sequence of calls with caught values, each with its own faults, clock reading, error
  and its context.
\<close>

fun logAppError_all :: "(faults \<times> nat \<times> thrown \<times> LogContext) list \<Rightarrow> database \<Rightarrow> database" where
  "logAppError_all [] db = db"
| "logAppError_all ((fl, now, err, ctx) # calls) db =
     logAppError_all calls (snd (logAppError fl now (Caught err) ctx db))"


section \<open>The broadcast bot: drafts\<close>

datatype step = await_photos | await_text | preview

text \<open>
  \<open>mediaGroupTimer\<close> is the \<open>setTimeout\<close> handle of the draft. The model keeps what
  matters of it, the instant at which the pending callback is due; \<open>None\<close> is a draft
  with no callback pending (never armed, cleared, or already run). Every removal of a
  draft from the map goes through \<open>clearDraft\<close>, which clears the handle first, so a
  pending callback always belongs to the draft stored under the operator's key, and the
  draft object the callback closes over is that entry of the map.
\<close>

record BroadcastDraft =
  step :: step
  photoFileIds :: "string list"
  draft_text :: "string option"
  mediaGroupId :: "string option"
  mediaGroupTimer :: "nat option"

type_synonym broadcastDrafts = "int \<rightharpoonup> BroadcastDraft"

definition MAX_BROADCAST_PHOTOS :: nat where
  "MAX_BROADCAST_PHOTOS = 3"

text \<open>The messages the bot sends, named by what they say.\<close>

datatype reply =
    NoAccess
  | AskPhotos
  | PhotoFailed
  | LimitReached
  | AskTextAlbum
  | AskTextPhoto
  | NoData
  | CbAck
  | Launching
  | Summary nat nat nat "string list" "string list"
  | Report string

text \<open>What a photo update carries: the sender, the sizes of the photo, the album token.\<close>

record PhotoUpdate =
  from_id :: "int option"
  photo :: "string list"
  media_group_id :: "string option"

definition getLargestPhotoFileId :: "PhotoUpdate \<Rightarrow> string option" where
  "getLargestPhotoFileId u = (if photo u = [] then None else Some (last (photo u)))"

definition getMediaGroupId :: "PhotoUpdate \<Rightarrow> string option" where
  "getMediaGroupId u = media_group_id u"

definition clearTimeout :: "BroadcastDraft \<Rightarrow> BroadcastDraft" where
  "clearTimeout draft = draft\<lparr>mediaGroupTimer := None\<rparr>"

definition clearDraft :: "int \<Rightarrow> broadcastDrafts \<Rightarrow> broadcastDrafts" where
  "clearDraft uid drafts =
     (let drafts1 =
        (case drafts uid of
           None \<Rightarrow> drafts
         | Some draft \<Rightarrow>
             if mediaGroupTimer draft \<noteq> None then drafts(uid \<mapsto> clearTimeout draft) else drafts)
      in drafts1(uid := None))"

definition isAdminUser :: "database \<Rightarrow> int \<Rightarrow> bool" where
  "isAdminUser db uid =
     (case find (\<lambda>u. telegramId u = Some uid) (users db) of
        None \<Rightarrow> False
      | Some u \<Rightarrow> isAdmin u)"

text \<open>The draft that the compose command stores.\<close>

definition fresh_draft :: BroadcastDraft where
  "fresh_draft = \<lparr>step = await_photos, photoFileIds = [], draft_text = None,
                  mediaGroupId = None, mediaGroupTimer = None\<rparr>"

text \<open>
  The compose command (\<open>bot.hears\<close>): for an admin, the operator's old draft is
  cleared and a fresh one stored.
\<close>

definition on_compose :: "int option \<Rightarrow> database \<Rightarrow> broadcastDrafts \<Rightarrow> reply list \<times> broadcastDrafts" where
  "on_compose sender db drafts =
     (case sender of
        None \<Rightarrow> ([], drafts)
      | Some uid \<Rightarrow>
          if \<not> isAdminUser db uid then ([NoAccess], drafts)
          else
            ([AskPhotos],
             (clearDraft uid drafts)(uid \<mapsto> fresh_draft)))"

text \<open>
  The photo handler (\<open>bot.on("photo")\<close>), run at instant \<open>now\<close>. With an album token
  the pending callback is cleared and a new one armed 700 ms ahead; without one the
  draft moves on at once, and a callback that is pending stays pending.
\<close>

definition on_photo :: "nat \<Rightarrow> PhotoUpdate \<Rightarrow> broadcastDrafts \<Rightarrow> reply list \<times> broadcastDrafts" where
  "on_photo now u drafts =
     (case from_id u of
        None \<Rightarrow> ([], drafts)
      | Some uid \<Rightarrow>
          (case drafts uid of
             None \<Rightarrow> ([], drafts)
           | Some draft \<Rightarrow>
               if step draft \<noteq> await_photos then ([], drafts)
               else if \<not> truthy (getLargestPhotoFileId u) then ([PhotoFailed], drafts)
               else if length (photoFileIds draft) \<ge> MAX_BROADCAST_PHOTOS then ([LimitReached], drafts)
               else
                 (let draft1 = draft\<lparr>photoFileIds := photoFileIds draft @ [last (photo u)]\<rparr>;
                      mediaGroupId' = getMediaGroupId u
                  in if truthy mediaGroupId' then
                       (let draft2 = draft1\<lparr>mediaGroupId := mediaGroupId'\<rparr>;
                            draft3 = (if mediaGroupTimer draft2 \<noteq> None then clearTimeout draft2 else draft2)
                        in ([], drafts(uid \<mapsto> draft3\<lparr>mediaGroupTimer := Some (now + 700)\<rparr>)))
                     else ([AskTextPhoto], drafts(uid \<mapsto> draft1\<lparr>step := await_text\<rparr>)))))"

text \<open>
  The callback armed by the photo handler, for the draft of operator \<open>uid\<close>. It looks
  at the photos only, not at the step the draft is in.
\<close>

definition timer_fires :: "int \<Rightarrow> broadcastDrafts \<Rightarrow> reply list \<times> broadcastDrafts" where
  "timer_fires uid drafts =
     (case drafts uid of
        None \<Rightarrow> ([], drafts)
      | Some draft \<Rightarrow>
          (let draft1 = draft\<lparr>mediaGroupTimer := None\<rparr>
           in if photoFileIds draft1 = [] then ([], drafts(uid \<mapsto> draft1))
              else ([AskTextAlbum], drafts(uid \<mapsto> draft1\<lparr>step := await_text\<rparr>))))"


subsection \<open>The event loop, for the tasks of one operator\<close>

text \<open>
  Node runs one task at a time: a handler for an update, or a timer callback. The photo
  updates of an operator come with their arrival instants, in arrival order. Before the
  update that arrives at \<open>t\<close> is handled, the operator's pending callback runs if it
  is due (\<open>deadline \<le> t\<close>), at its deadline; after the last update a pending callback
  runs at its deadline. The run lists the tasks: instant, replies, drafts afterwards.
\<close>

definition pending :: "int \<Rightarrow> broadcastDrafts \<Rightarrow> nat option" where
  "pending uid drafts = (case drafts uid of None \<Rightarrow> None | Some draft \<Rightarrow> mediaGroupTimer draft)"

fun run :: "int \<Rightarrow> (nat \<times> PhotoUpdate) list \<Rightarrow> broadcastDrafts
              \<Rightarrow> (nat \<times> reply list \<times> broadcastDrafts) list" where
  "run uid [] drafts =
     (case pending uid drafts of
        None \<Rightarrow> []
      | Some deadline \<Rightarrow> [(deadline, timer_fires uid drafts)])"
| "run uid ((t, u) # updates) drafts =
     (case pending uid drafts of
        None \<Rightarrow> (t, on_photo t u drafts) # run uid updates (snd (on_photo t u drafts))
      | Some deadline \<Rightarrow>
          if deadline \<le> t then
            (let drafts1 = snd (timer_fires uid drafts)
             in (deadline, timer_fires uid drafts) # (t, on_photo t u drafts1)
                  # run uid updates (snd (on_photo t u drafts1)))
          else (t, on_photo t u drafts) # run uid updates (snd (on_photo t u drafts)))"

text \<open>
  The instants at which the operator's draft goes from \<open>await_photos\<close> to
  \<open>await_text\<close> in a run that starts from \<open>drafts\<close>, each with the photos the draft
  holds at that instant.
\<close>

fun entered_await_text :: "int \<Rightarrow> broadcastDrafts \<Rightarrow> (nat \<times> reply list \<times> broadcastDrafts) list
                             \<Rightarrow> (nat \<times> string list) list" where
  "entered_await_text uid drafts [] = []"
| "entered_await_text uid drafts ((t, replies, drafts') # tasks) =
     (case (drafts uid, drafts' uid) of
        (Some d, Some d') \<Rightarrow>
          if step d = await_photos \<and> step d' = await_text then [(t, photoFileIds d')] else []
      | _ \<Rightarrow> [])
     @ entered_await_text uid drafts' tasks"

text \<open>
  An album burst, in the words of the specification: photo updates of one operator that
  share one album token and arrive less than the debounce interval apart.
\<close>

definition album_update :: "int \<Rightarrow> string \<Rightarrow> PhotoUpdate \<Rightarrow> bool" where
  "album_update uid album u =
     (from_id u = Some uid \<and> truthy (getLargestPhotoFileId u) \<and> album \<noteq> [] \<and>
      media_group_id u = Some album)"

fun within_debounce :: "(nat \<times> PhotoUpdate) list \<Rightarrow> bool" where
  "within_debounce [] = True"
| "within_debounce [a] = True"
| "within_debounce ((t1, u1) # (t2, u2) # updates) =
     (t1 \<le> t2 \<and> t2 < t1 + 700 \<and> within_debounce ((t2, u2) # updates))"

definition album_burst :: "int \<Rightarrow> string \<Rightarrow> (nat \<times> PhotoUpdate) list \<Rightarrow> bool" where
  "album_burst uid album updates =
     (updates \<noteq> [] \<and> list_all (\<lambda>(t, u). album_update uid album u) updates \<and>
      within_debounce updates)"

text \<open>
  The reading of the specification's sentence that the draft moves on only once the
  debounce interval has passed since the last update of the burst.
\<close>

definition after_last_update :: "(nat \<times> PhotoUpdate) list \<Rightarrow> (nat \<times> string list) list \<Rightarrow> bool" where
  "after_last_update updates entries =
     list_all (\<lambda>(t, photos). fst (last updates) + 700 \<le> t) entries"


section \<open>The broadcast bot: delivery\<close>

text \<open>
  \<open>String.prototype.trim\<close> on the ASCII white space, and the decimal form of a number,
  for \<open>formatUserName\<close>.
\<close>

definition is_space :: "char \<Rightarrow> bool" where
  "is_space c = (c \<in> set [CHR '' '', CHR 0x09, CHR 0x0A, CHR 0x0B, CHR 0x0C, CHR 0x0D])"

definition trim :: "string \<Rightarrow> string" where
  "trim s = rev (dropWhile is_space (rev (dropWhile is_space s)))"

fun show_nat :: "nat \<Rightarrow> string" where
  "show_nat n =
     (if n < 10 then [char_of (48 + n)]
      else show_nat (n div 10) @ [char_of (48 + n mod 10)])"

definition show_int :: "int \<Rightarrow> string" where
  "show_int i = (if i < 0 then CHR ''-'' # show_nat (nat (- i)) else show_nat (nat i))"

definition formatUserName :: "User \<Rightarrow> string" where
  "formatUserName user =
     (let first = (case firstName user of None \<Rightarrow> [] | Some v \<Rightarrow> v);
          last' = (case lastName user of None \<Rightarrow> [] | Some v \<Rightarrow> v);
          joined = trim (first @ '' '' @ last')
      in if joined \<noteq> [] then joined
         else (case telegramId user of
                 None \<Rightarrow> ''User''
               | Some n \<Rightarrow> if n \<noteq> 0 then ''User '' @ show_int n else ''User''))"

text \<open>
  One send. \<open>api\<close> is what the Telegram call made for this recipient does: \<open>None\<close> when
  it resolves, the thrown value when it rejects. A single photo whose identifier is
  empty returns before any call is made.
\<close>

definition sendBroadcastToChat :: "thrown option \<Rightarrow> int \<Rightarrow> string list \<Rightarrow> string \<Rightarrow> thrown + unit" where
  "sendBroadcastToChat api chat photos caption =
     (if length photos = 1 then
        (if hd photos = [] then Inr ()
         else (case api of Some e \<Rightarrow> Inl e | None \<Rightarrow> Inr ()))
      else (case api of Some e \<Rightarrow> Inl e | None \<Rightarrow> Inr ()))"

record Tally =
  successCount :: nat
  failedCount :: nat
  deliveredNames :: "string list"
  failedNames :: "string list"

text \<open>
  The body of the loop for one user. A user whose \<open>chatId\<close> is missing or 0 is skipped
  (\<open>continue\<close>); otherwise the send runs inside \<open>try\<close>, and the \<open>catch\<close> books the
  failure.
\<close>

definition deliver_one :: "thrown option \<Rightarrow> string list \<Rightarrow> string \<Rightarrow> User \<Rightarrow> Tally \<Rightarrow> thrown + Tally" where
  "deliver_one api photos caption user t =
     (case chatId user of
        None \<Rightarrow> Inr t
      | Some chat \<Rightarrow>
          if chat = 0 then Inr t
          else
            (case sendBroadcastToChat api chat photos caption of
               Inr u \<Rightarrow>
                 Inr (t\<lparr>successCount := successCount t + 1,
                        deliveredNames := deliveredNames t @ [formatUserName user]\<rparr>)
             | Inl error \<Rightarrow>
                 Inr (t\<lparr>failedCount := failedCount t + 1,
                        failedNames := failedNames t @ [formatUserName user]\<rparr>)))"

text \<open>
  The loop over the users, each with its position in the array; \<open>api i\<close> is the outcome
  of the call made in iteration \<open>i\<close>. A thrown value that left the body would end the
  loop.
\<close>

fun deliver_loop :: "(nat \<Rightarrow> thrown option) \<Rightarrow> string list \<Rightarrow> string \<Rightarrow> (nat \<times> User) list \<Rightarrow> Tally
                       \<Rightarrow> thrown + Tally" where
  "deliver_loop api photos caption [] t = Inr t"
| "deliver_loop api photos caption ((i, user) # rest) t =
     (case deliver_one (api i) photos caption user t of
        Inl e \<Rightarrow> Inl e
      | Inr t' \<Rightarrow> deliver_loop api photos caption rest t')"

text \<open>\<open>User.find({ chatId: { $exists: true, $ne: null }, isBot: { $ne: true } })\<close>\<close>

definition find_recipients :: "database \<Rightarrow> User list" where
  "find_recipients db = filter (\<lambda>u. chatId u \<noteq> None \<and> \<not> isBot u) (users db)"

text \<open>The ledger part of the send handler (lines 470 to 490), written as it stands there.\<close>

definition broadcast_ledger ::
  "faults \<Rightarrow> nat \<Rightarrow> BroadcastPayload \<Rightarrow> BroadcastPayload collection
     \<Rightarrow> (thrown + unit) \<times> BroadcastPayload collection" where
  "broadcast_ledger fl now entry c =
     (case create (create_fault fl) now entry c of
        (Inl e, c1) \<Rightarrow> (Inl e, c1)
      | (Inr u, c1) \<Rightarrow>
          (case countDocuments (count_fault fl) c1 of
             Inl e \<Rightarrow> (Inl e, c1)
           | Inr totalBroadcasts \<Rightarrow>
               if totalBroadcasts > 500 then
                 (let extra = totalBroadcasts - 500 in
                  case find_oldest_ids (find_fault fl) extra c1 of
                    Inl e \<Rightarrow> (Inl e, c1)
                  | Inr oldIds \<Rightarrow>
                      if oldIds \<noteq> [] then deleteMany (delete_fault fl) oldIds c1
                      else (Inr (), c1))
               else (Inr (), c1)))"

fun join :: "string \<Rightarrow> string list \<Rightarrow> string" where
  "join sep [] = []"
| "join sep [x] = x"
| "join sep (x # y # ys) = x @ sep @ join sep (y # ys)"

definition reportText :: "Tally \<Rightarrow> string" where
  "reportText t =
     join [CHR 0x0A] ([''Delivered:''] @ deliveredNames t @ [[], ''Failed:''] @ failedNames t @ [[]])"

text \<open>
  The send handler (\<open>bot.action("broadcast_send")\<close>). The replies to the operator and
  the recipient query are taken to succeed; the sends and the ledger calls may fail.
  Nothing in the handler catches a failure of the ledger calls: it leaves the handler
  before the draft is cleared and before the summary is sent.
\<close>

definition broadcast_send ::
  "(nat \<Rightarrow> thrown option) \<Rightarrow> faults \<Rightarrow> nat \<Rightarrow> int option \<Rightarrow> broadcastDrafts \<Rightarrow> database
     \<Rightarrow> (thrown + unit) \<times> reply list \<times> broadcastDrafts \<times> database" where
  "broadcast_send api fl now sender drafts db =
     (case sender of
        None \<Rightarrow> (Inr (), [], drafts, db)
      | Some uid \<Rightarrow>
          (case drafts uid of
             None \<Rightarrow> (Inr (), [NoData], drafts, db)
           | Some draft \<Rightarrow>
               if step draft \<noteq> preview \<or> \<not> truthy (draft_text draft) then (Inr (), [NoData], drafts, db)
               else
                 (let caption = (case draft_text draft of None \<Rightarrow> [] | Some v \<Rightarrow> v);
                      found = find_recipients db
                  in case deliver_loop api (photoFileIds draft) caption (enumerate 0 found)
                            \<lparr>successCount = 0, failedCount = 0, deliveredNames = [], failedNames = []\<rparr> of
                       Inl e \<Rightarrow> (Inl e, [CbAck, Launching], drafts, db)
                     | Inr t \<Rightarrow>
                         (case broadcast_ledger fl now
                                 \<lparr>bc_adminTelegramId = uid, bc_text = caption,
                                  bc_photoFileIds = photoFileIds draft,
                                  bc_totalRecipients = successCount t + failedCount t,
                                  bc_successCount = successCount t,
                                  bc_failedCount = failedCount t\<rparr>
                                 (broadcasts db) of
                            (Inl e, c) \<Rightarrow> (Inl e, [CbAck, Launching], drafts, db\<lparr>broadcasts := c\<rparr>)
                          | (Inr u, c) \<Rightarrow>
                              (Inr (),
                               [CbAck, Launching,
                                Summary (successCount t) (failedCount t) (successCount t + failedCount t)
                                  (take 20 (deliveredNames t)) (take 20 (failedNames t))]
                               @ (if length (deliveredNames t) > 20 \<or> length (failedNames t) > 20
                                  then [Report (reportText t)] else []),
                               clearDraft uid drafts,
                               db\<lparr>broadcasts := c\<rparr>)))))"

subsection \<open>Reading the outcome of a delivery\<close>

text \<open>
  A user has a destination when the loop does not skip it. A user at position \<open>i\<close> is
  delivered to when it has a destination and its send returns, and failed for when it
  has a destination and its send throws.
\<close>

definition has_destination :: "User \<Rightarrow> bool" where
  "has_destination user = (case chatId user of None \<Rightarrow> False | Some chat \<Rightarrow> chat \<noteq> 0)"

definition delivered_to :: "(nat \<Rightarrow> thrown option) \<Rightarrow> string list \<Rightarrow> string \<Rightarrow> nat \<times> User \<Rightarrow> bool" where
  "delivered_to api photos caption iu =
     (case chatId (snd iu) of
        None \<Rightarrow> False
      | Some chat \<Rightarrow> chat \<noteq> 0 \<and> \<not> isl (sendBroadcastToChat (api (fst iu)) chat photos caption))"

definition failed_for :: "(nat \<Rightarrow> thrown option) \<Rightarrow> string list \<Rightarrow> string \<Rightarrow> nat \<times> User \<Rightarrow> bool" where
  "failed_for api photos caption iu =
     (case chatId (snd iu) of
        None \<Rightarrow> False
      | Some chat \<Rightarrow> chat \<noteq> 0 \<and> isl (sendBroadcastToChat (api (fst iu)) chat photos caption))"

section \<open>The bounded ledger of the specification\<close>

text \<open>
  The specification's \<open>append(entry)\<close> for a ledger of capacity \<open>C\<close>, in its words:
  insert one entry, compute \<open>overflow = max(0, count() - C)\<close>, and if \<open>overflow > 0\<close>
  select the \<open>overflow\<close> oldest entries by creation order and remove exactly those.
\<close>

definition spec_append :: "nat \<Rightarrow> nat \<Rightarrow> 'p \<Rightarrow> 'p collection \<Rightarrow> 'p collection" where
  "spec_append C now entry c =
     (let c1 = c\<lparr>docs := docs c @ [\<lparr>doc_id = next_id c, createdAt = now, payload = entry\<rparr>],
                 next_id := Suc (next_id c)\<rparr>;
          overflow = max 0 (int (length (docs c1)) - int C)
      in if overflow > 0 then
           (let oldest = take (nat overflow) (sort_key createdAt (docs c1))
            in c1\<lparr>docs := filter (\<lambda>d. d \<notin> set oldest) (docs c1)\<rparr>)
         else c1)"

section \<open>The HTTP handlers: requests, environment, responses\<close>

text \<open>
  A value of a request (a query parameter, a field of the JSON body) as the handlers
  look at it: a finite number, a string, nothing, or anything else. Telegram
  identifiers are whole numbers.
\<close>

datatype js_value = JUndefined | JNumber int | JString string | JOther

text \<open>
  \<open>initDataId\<close> is what \<open>resolveInitDataTelegramId\<close> yields for the request, the
  user of a Telegram init-data string whose signature checks.
\<close>

record Request =
  req_path :: string
  req_method :: string
  params_id :: string
  initDataId :: "int option"
  query_telegramId :: js_value
  body_telegramId :: js_value
  header_telegramId :: "string option"
  query_adminTelegramId :: js_value
  body_adminTelegramId :: js_value
  body_attachmentData :: js_value
  body_attachmentName :: js_value
  body_attachmentMimeType :: js_value
  body_trainingDate :: js_value

record Workbook =
  SheetNames :: "string list"
  Sheets :: "string \<Rightarrow> string option list list option"

record SavedAttachment =
  saved_attachmentUrl :: string
  saved_attachmentFileName :: string
  saved_attachmentMimeType :: string

text \<open>
  What the handlers take from outside the repository's own logic: the numeric value of
  a string when it is a finite number (\<open>Number\<close>), the process environment (an unset
  bot token is the empty string), the clock,
  the date parser, the file store with the spreadsheet reader (\<open>fs.readFile\<close> and
  \<open>XLSX.read\<close> on a stored name), and whether a database call fails. The attachment
  check and the attachment store of the accept handler are inputs as well.
\<close>

record Env =
  env_Number :: "string \<Rightarrow> int option"
  env_ADMIN_TELEGRAM_ID :: "string option"
  env_TELEGRAM_BOT_TOKEN :: string
  env_now :: nat
  env_parseDate :: "string \<Rightarrow> nat option"
  env_readWorkbook :: "string \<Rightarrow> thrown + Workbook"
  env_isExcelAttachment :: "string option \<Rightarrow> string option \<Rightarrow> string \<Rightarrow> bool"
  env_saveAttachment :: "string \<Rightarrow> string option \<Rightarrow> string option \<Rightarrow> thrown + SavedAttachment"
  env_order_fault :: "thrown option"
  env_user_fault :: "thrown option"
  env_log_faults :: faults

datatype file_error = NoError | FileNotFound | SheetNotFound | OpenFailed | AccessDenied

record ViewData =
  view_error :: file_error
  view_fileName :: string
  view_attachmentUrl :: string
  view_sheetName :: string
  view_header :: "string list"
  view_rows :: "string list list"

datatype response_body =
    Json_message string
  | Json_status string
  | Json_counts nat nat nat
  | Render string "int option" ViewData

record Response =
  res_status :: nat
  res_body :: response_body

subsection \<open>Resolving the caller\<close>

definition parseTelegramId :: "Env \<Rightarrow> js_value \<Rightarrow> int option" where
  "parseTelegramId env v =
     (case v of
        JNumber n \<Rightarrow> Some n
      | JString s \<Rightarrow> if trim s \<noteq> [] then env_Number env s else None
      | _ \<Rightarrow> None)"

definition header_value :: "string option \<Rightarrow> js_value" where
  "header_value h = (case h of None \<Rightarrow> JUndefined | Some s \<Rightarrow> JString s)"

text \<open>\<open>a ?? b\<close>\<close>

definition nullish :: "'a option \<Rightarrow> 'a option \<Rightarrow> 'a option" where
  "nullish a b = (case a of None \<Rightarrow> b | Some v \<Rightarrow> Some v)"

text \<open>Truthiness of an optional number: present and not 0.\<close>

definition truthy_id :: "int option \<Rightarrow> bool" where
  "truthy_id i = (case i of None \<Rightarrow> False | Some n \<Rightarrow> n \<noteq> 0)"

definition resolveTelegramUserId :: "Env \<Rightarrow> Request \<Rightarrow> int option" where
  "resolveTelegramUserId env req =
     (if truthy_id (initDataId req) then initDataId req
      else nullish (parseTelegramId env (query_telegramId req))
             (nullish (parseTelegramId env (body_telegramId req))
                (parseTelegramId env (header_value (header_telegramId req)))))"

definition resolveAdminTelegramId :: "Env \<Rightarrow> Request \<Rightarrow> int option" where
  "resolveAdminTelegramId env req =
     (if truthy_id (initDataId req) then initDataId req
      else nullish (parseTelegramId env (query_adminTelegramId req))
             (nullish (parseTelegramId env (body_adminTelegramId req))
                (parseTelegramId env (header_value (env_ADMIN_TELEGRAM_ID env)))))"

definition withAdminContext :: "Env \<Rightarrow> Request \<Rightarrow> LogContext \<Rightarrow> LogContext" where
  "withAdminContext env req base =
     (if truthy_id (resolveAdminTelegramId env req)
      then base\<lparr>ctx_adminTelegramId := resolveAdminTelegramId env req\<rparr>
      else base)"

subsection \<open>The file view\<close>

text \<open>\<open>path.basename\<close> on a POSIX path.\<close>

definition basename :: "string \<Rightarrow> string" where
  "basename p =
     rev (takeWhile (\<lambda>c. c \<noteq> CHR ''/'') (dropWhile (\<lambda>c. c = CHR ''/'') (rev p)))"

definition empty_view :: "file_error \<Rightarrow> ViewData" where
  "empty_view e = \<lparr>view_error = e, view_fileName = [], view_attachmentUrl = [],
                    view_sheetName = [], view_header = [], view_rows = []\<rparr>"

definition buildTrainingFileViewData :: "Env \<Rightarrow> Order option \<Rightarrow> ViewData" where
  "buildTrainingFileViewData env order =
     (case order of
        None \<Rightarrow> empty_view FileNotFound
      | Some ord \<Rightarrow>
          (case attachmentUrl ord of
             None \<Rightarrow> empty_view FileNotFound
           | Some url \<Rightarrow>
               if url = [] then empty_view FileNotFound
               else
                 (let storedName = basename url;
                      shownName = (case attachmentFileName ord of
                                     None \<Rightarrow> storedName
                                   | Some n \<Rightarrow> if n \<noteq> [] then n else storedName)
                  in case env_readWorkbook env storedName of
                       Inl e \<Rightarrow>
                         \<lparr>view_error = OpenFailed, view_fileName = shownName, view_attachmentUrl = url,
                          view_sheetName = [], view_header = [], view_rows = []\<rparr>
                     | Inr workbook \<Rightarrow>
                         (let sheetName = (case SheetNames workbook of [] \<Rightarrow> [] | n # ns \<Rightarrow> n);
                              sheet = (if sheetName \<noteq> [] then Sheets workbook sheetName else None)
                          in case sheet of
                               None \<Rightarrow>
                                 \<lparr>view_error = SheetNotFound, view_fileName = shownName,
                                  view_attachmentUrl = url, view_sheetName = sheetName,
                                  view_header = [], view_rows = []\<rparr>
                             | Some rawRows \<Rightarrow>
                                 (let rows = map (map (\<lambda>cell. case cell of None \<Rightarrow> [] | Some v \<Rightarrow> v)) rawRows;
                                      maxColumns = foldl (\<lambda>m row. max m (length row)) 0 rows;
                                      normalized =
                                        map (\<lambda>row. if length row \<ge> maxColumns then row
                                                   else row @ replicate (maxColumns - length row) [])
                                          rows
                                  in \<lparr>view_error = NoError, view_fileName = shownName,
                                      view_attachmentUrl = url, view_sheetName = sheetName,
                                      view_header = (case normalized of [] \<Rightarrow> [] | h # t \<Rightarrow> h),
                                      view_rows = drop 1 normalized\<rparr>)))))"

text \<open>\<open>Model.findById(id).lean()\<close>: the document with this identifier, if any.\<close>

definition findById :: "thrown option \<Rightarrow> string \<Rightarrow> Order list \<Rightarrow> thrown + Order option" where
  "findById fault ident coll =
     (case fault of
        Some e \<Rightarrow> Inl e
      | None \<Rightarrow> Inr (find (\<lambda>ord. order_id ord = ident) coll))"

text \<open>
  The two file views of the mini-application, \<open>GET /miniapp/trainings/:id/file\<close> and
  \<open>GET /miniapp/nutrition/:id/file\<close>, are the same code on two collections with two
  view names. The \<open>catch\<close> logs the error and answers 500.
\<close>

definition miniapp_file_view ::
  "string \<Rightarrow> (database \<Rightarrow> Order list) \<Rightarrow> Env \<Rightarrow> Request \<Rightarrow> database \<Rightarrow> Response \<times> database" where
  "miniapp_file_view view coll env req db =
     (let telegramId' = resolveTelegramUserId env req in
      case findById (env_order_fault env) (params_id req) (coll db) of
        Inl error \<Rightarrow>
          (\<lparr>res_status = 500,
            res_body = Render view (resolveTelegramUserId env req) (empty_view OpenFailed)\<rparr>,
           snd (logAppError (env_log_faults env) (env_now env) (Caught error)
                  \<lparr>ctx_source = ''miniapp-view'', ctx_path = Some (req_path req),
                   ctx_method = Some (req_method req), ctx_status = Some 500,
                   ctx_adminTelegramId = None\<rparr> db))
      | Inr None \<Rightarrow>
          (\<lparr>res_status = 404,
            res_body = Render view telegramId' (buildTrainingFileViewData env None)\<rparr>, db)
      | Inr (Some order) \<Rightarrow>
          if truthy_id telegramId' \<and> Some (telegramUserId order) \<noteq> telegramId' then
            (\<lparr>res_status = 403, res_body = Render view telegramId' (empty_view AccessDenied)\<rparr>, db)
          else
            (let viewData = buildTrainingFileViewData env (Some order);
                 status = (if view_error viewData \<noteq> NoError then 404 else 200)
             in (\<lparr>res_status = status, res_body = Render view telegramId' viewData\<rparr>, db)))"

definition get_training_file :: "Env \<Rightarrow> Request \<Rightarrow> database \<Rightarrow> Response \<times> database" where
  "get_training_file = miniapp_file_view ''miniapp/training-file'' orders"

definition get_nutrition_file :: "Env \<Rightarrow> Request \<Rightarrow> database \<Rightarrow> Response \<times> database" where
  "get_nutrition_file = miniapp_file_view ''miniapp/nutrition-file'' nutritionOrders"

subsection \<open>The status transitions of the admin interface\<close>

text \<open>
  The admin router has six transition handlers: accept, decline and complete, each for
  the training orders (\<open>Order\<close>) and for the nutrition orders (\<open>NutritionOrder\<close>). The
  two models differ in the collection they query and in the field of the user document
  that follows the order (\<open>trainingStatus\<close> or \<open>nutritionStatus\<close>).
\<close>

datatype order_model = OrderModel | NutritionOrderModel

definition documents :: "order_model \<Rightarrow> database \<Rightarrow> Order list" where
  "documents m db = (case m of OrderModel \<Rightarrow> orders db | NutritionOrderModel \<Rightarrow> nutritionOrders db)"

definition store_documents :: "order_model \<Rightarrow> Order list \<Rightarrow> database \<Rightarrow> database" where
  "store_documents m coll db =
     (case m of
        OrderModel \<Rightarrow> db\<lparr>orders := coll\<rparr>
      | NutritionOrderModel \<Rightarrow> db\<lparr>nutritionOrders := coll\<rparr>)"

definition set_user_status :: "order_model \<Rightarrow> string \<Rightarrow> User \<Rightarrow> User" where
  "set_user_status m s u =
     (case m of
        OrderModel \<Rightarrow> u\<lparr>trainingStatus := s\<rparr>
      | NutritionOrderModel \<Rightarrow> u\<lparr>nutritionStatus := Some s\<rparr>)"

text \<open>
  \<open>findOneAndUpdate(filter, update, { new: true })\<close>: the first document that
  matches is updated and returned; \<open>None\<close> when no document matches.
\<close>

fun findOneAndUpdate :: "(Order \<Rightarrow> bool) \<Rightarrow> (Order \<Rightarrow> Order) \<Rightarrow> Order list \<Rightarrow> Order option \<times> Order list" where
  "findOneAndUpdate flt upd [] = (None, [])"
| "findOneAndUpdate flt upd (ord # rest) =
     (if flt ord then (Some (upd ord), upd ord # rest)
      else (case findOneAndUpdate flt upd rest of (r, rest') \<Rightarrow> (r, ord # rest')))"

text \<open>\<open>User.updateOne({ telegramId }, { $set: fields })\<close>: the first user with this identifier.\<close>

fun updateOne :: "int \<Rightarrow> (User \<Rightarrow> User) \<Rightarrow> User list \<Rightarrow> User list" where
  "updateOne tid upd [] = []"
| "updateOne tid upd (u # us) =
     (if telegramId u = Some tid then upd u # us else u # updateOne tid upd us)"

definition string_field :: "js_value \<Rightarrow> string option" where
  "string_field v = (case v of JString s \<Rightarrow> Some s | _ \<Rightarrow> None)"

definition api_log_context :: "Request \<Rightarrow> LogContext" where
  "api_log_context req =
     \<lparr>ctx_source = ''api'', ctx_path = Some (req_path req), ctx_method = Some (req_method req),
      ctx_status = Some 500, ctx_adminTelegramId = None\<rparr>"

text \<open>
  The second half of each transition handler, from the guarded update on: update the
  order under the filter on identifier and current status, answer 404 when nothing
  matched, otherwise set the status of the user and answer 200. The query throws
  (\<open>env_order_fault\<close>) when the database call fails, which includes a request identifier
  that does not cast to an \<open>ObjectId\<close>.
\<close>

definition guarded_transition ::
  "Env \<Rightarrow> Request \<Rightarrow> order_model \<Rightarrow> string \<Rightarrow> (Order \<Rightarrow> Order) \<Rightarrow> string \<Rightarrow> string \<Rightarrow> string
     \<Rightarrow> database \<Rightarrow> (thrown + Response) \<times> database" where
  "guarded_transition env req m guard upd not_found userStatus answer db =
     (case env_order_fault env of
        Some e \<Rightarrow> (Inl e, db)
      | None \<Rightarrow>
          (case findOneAndUpdate (\<lambda>ord. order_id ord = params_id req \<and> order_status ord = guard) upd
                  (documents m db) of
             (None, coll) \<Rightarrow>
               (Inr \<lparr>res_status = 404, res_body = Json_message not_found\<rparr>, store_documents m coll db)
           | (Some updated, coll) \<Rightarrow>
               (case env_user_fault env of
                  Some e \<Rightarrow> (Inl e, store_documents m coll db)
                | None \<Rightarrow>
                    (Inr \<lparr>res_status = 200, res_body = Json_status answer\<rparr>,
                     (store_documents m coll db)
                       \<lparr>users := updateOne (telegramUserId updated) (set_user_status m userStatus)
                                   (users db)\<rparr>))))"

text \<open>
  The \<open>catch\<close> of every transition handler: log the caught value, then answer 500 with
  the message of the handler.
\<close>

definition answer_failure :: "Env \<Rightarrow> Request \<Rightarrow> string \<Rightarrow> thrown \<Rightarrow> database \<Rightarrow> Response \<times> database" where
  "answer_failure env req message error db =
     (\<lparr>res_status = 500, res_body = Json_message message\<rparr>,
      snd (logAppError (env_log_faults env) (env_now env) (Caught error)
             (withAdminContext env req (api_log_context req)) db))"

definition accept_failure_message :: "thrown \<Rightarrow> string" where
  "accept_failure_message error =
     (case error of
        ErrorObj m st \<Rightarrow> if m = ''Attachment too large'' then ''Attachment too large''
                         else ''Failed to accept request''
      | NonError s \<Rightarrow> ''Failed to accept request'')"

text \<open>\<open>POST /api/admin/requests/:id/accept\<close>, the body of its \<open>try\<close>.\<close>

definition accept_try :: "Env \<Rightarrow> Request \<Rightarrow> database \<Rightarrow> (thrown + Response) \<times> database" where
  "accept_try env req db =
     (let adminTelegramId = resolveAdminTelegramId env req in
      if \<not> truthy_id adminTelegramId then
        (Inr \<lparr>res_status = 400, res_body = Json_message ''adminTelegramId is required''\<rparr>, db)
      else
        (let attachmentData = (case body_attachmentData req of JString s \<Rightarrow> s | _ \<Rightarrow> []);
             attachmentName = string_field (body_attachmentName req);
             attachmentMimeType = string_field (body_attachmentMimeType req)
         in if attachmentData = [] then
              (Inr \<lparr>res_status = 400, res_body = Json_message ''Excel file is required''\<rparr>, db)
            else if \<not> env_isExcelAttachment env attachmentName attachmentMimeType attachmentData then
              (Inr \<lparr>res_status = 400,
                    res_body = Json_message ''Only .xls or .xlsx files are allowed''\<rparr>, db)
            else
              (let date = (case body_trainingDate req of
                             JString s \<Rightarrow> if s \<noteq> [] then env_parseDate env s else None
                           | _ \<Rightarrow> None)
               in case env_saveAttachment env attachmentData attachmentName attachmentMimeType of
                    Inl e \<Rightarrow> (Inl e, db)
                  | Inr saved \<Rightarrow>
                      guarded_transition env req OrderModel ''pending''
                        (\<lambda>ord. ord\<lparr>order_status := ''accepted'',
                                    order_adminTelegramId := adminTelegramId,
                                    decisionAt := Some (env_now env),
                                    trainingDate := (case date of None \<Rightarrow> trainingDate ord | Some d \<Rightarrow> Some d),
                                    attachmentUrl := Some (saved_attachmentUrl saved),
                                    attachmentFileName := Some (saved_attachmentFileName saved),
                                    attachmentMimeType := Some (saved_attachmentMimeType saved)\<rparr>)
                        ''Request not found'' ''active'' ''accepted'' db)))"

definition post_accept :: "Env \<Rightarrow> Request \<Rightarrow> database \<Rightarrow> Response \<times> database" where
  "post_accept env req db =
     (case accept_try env req db of
        (Inr response, db1) \<Rightarrow> (response, db1)
      | (Inl error, db1) \<Rightarrow> answer_failure env req (accept_failure_message error) error db1)"

text \<open>\<open>POST /api/admin/nutrition/requests/:id/accept\<close>: as above, without the training date.\<close>

definition nutrition_accept_try :: "Env \<Rightarrow> Request \<Rightarrow> database \<Rightarrow> (thrown + Response) \<times> database" where
  "nutrition_accept_try env req db =
     (let adminTelegramId = resolveAdminTelegramId env req in
      if \<not> truthy_id adminTelegramId then
        (Inr \<lparr>res_status = 400, res_body = Json_message ''adminTelegramId is required''\<rparr>, db)
      else
        (let attachmentData = (case body_attachmentData req of JString s \<Rightarrow> s | _ \<Rightarrow> []);
             attachmentName = string_field (body_attachmentName req);
             attachmentMimeType = string_field (body_attachmentMimeType req)
         in if attachmentData = [] then
              (Inr \<lparr>res_status = 400, res_body = Json_message ''Excel file is required''\<rparr>, db)
            else if \<not> env_isExcelAttachment env attachmentName attachmentMimeType attachmentData then
              (Inr \<lparr>res_status = 400,
                    res_body = Json_message ''Only .xls or .xlsx files are allowed''\<rparr>, db)
            else
              (case env_saveAttachment env attachmentData attachmentName attachmentMimeType of
                 Inl e \<Rightarrow> (Inl e, db)
               | Inr saved \<Rightarrow>
                   guarded_transition env req NutritionOrderModel ''pending''
                     (\<lambda>ord. ord\<lparr>order_status := ''accepted'',
                                 order_adminTelegramId := adminTelegramId,
                                 decisionAt := Some (env_now env),
                                 attachmentUrl := Some (saved_attachmentUrl saved),
                                 attachmentFileName := Some (saved_attachmentFileName saved),
                                 attachmentMimeType := Some (saved_attachmentMimeType saved)\<rparr>)
                     ''Request not found'' ''active'' ''accepted'' db)))"

definition post_nutrition_accept :: "Env \<Rightarrow> Request \<Rightarrow> database \<Rightarrow> Response \<times> database" where
  "post_nutrition_accept env req db =
     (case nutrition_accept_try env req db of
        (Inr response, db1) \<Rightarrow> (response, db1)
      | (Inl error, db1) \<Rightarrow> answer_failure env req (accept_failure_message error) error db1)"

text \<open>\<open>POST /api/admin/requests/:id/decline\<close>\<close>

definition decline_try :: "Env \<Rightarrow> Request \<Rightarrow> database \<Rightarrow> (thrown + Response) \<times> database" where
  "decline_try env req db =
     (let adminTelegramId = resolveAdminTelegramId env req in
      if \<not> truthy_id adminTelegramId then
        (Inr \<lparr>res_status = 400, res_body = Json_message ''adminTelegramId is required''\<rparr>, db)
      else
        guarded_transition env req OrderModel ''pending''
          (\<lambda>ord. ord\<lparr>order_status := ''declined'',
                      order_adminTelegramId := adminTelegramId,
                      decisionAt := Some (env_now env)\<rparr>)
          ''Request not found'' ''declined'' ''declined'' db)"

definition post_decline :: "Env \<Rightarrow> Request \<Rightarrow> database \<Rightarrow> Response \<times> database" where
  "post_decline env req db =
     (case decline_try env req db of
        (Inr response, db1) \<Rightarrow> (response, db1)
      | (Inl error, db1) \<Rightarrow> answer_failure env req ''Failed to decline request'' error db1)"

text \<open>\<open>POST /api/admin/nutrition/requests/:id/decline\<close>\<close>

definition nutrition_decline_try :: "Env \<Rightarrow> Request \<Rightarrow> database \<Rightarrow> (thrown + Response) \<times> database" where
  "nutrition_decline_try env req db =
     (let adminTelegramId = resolveAdminTelegramId env req in
      if \<not> truthy_id adminTelegramId then
        (Inr \<lparr>res_status = 400, res_body = Json_message ''adminTelegramId is required''\<rparr>, db)
      else
        guarded_transition env req NutritionOrderModel ''pending''
          (\<lambda>ord. ord\<lparr>order_status := ''declined'',
                      order_adminTelegramId := adminTelegramId,
                      decisionAt := Some (env_now env)\<rparr>)
          ''Request not found'' ''declined'' ''declined'' db)"

definition post_nutrition_decline :: "Env \<Rightarrow> Request \<Rightarrow> database \<Rightarrow> Response \<times> database" where
  "post_nutrition_decline env req db =
     (case nutrition_decline_try env req db of
        (Inr response, db1) \<Rightarrow> (response, db1)
      | (Inl error, db1) \<Rightarrow> answer_failure env req ''Failed to decline request'' error db1)"

text \<open>\<open>POST /api/admin/trainings/:id/complete\<close>\<close>

definition complete_try :: "Env \<Rightarrow> Request \<Rightarrow> database \<Rightarrow> (thrown + Response) \<times> database" where
  "complete_try env req db =
     (let adminTelegramId = resolveAdminTelegramId env req in
      if \<not> truthy_id adminTelegramId then
        (Inr \<lparr>res_status = 400, res_body = Json_message ''adminTelegramId is required''\<rparr>, db)
      else
        guarded_transition env req OrderModel ''accepted''
          (\<lambda>ord. ord\<lparr>order_status := ''completed'',
                      order_adminTelegramId := adminTelegramId,
                      completedAt := Some (env_now env)\<rparr>)
          ''Training not found'' ''completed'' ''completed'' db)"

definition post_complete :: "Env \<Rightarrow> Request \<Rightarrow> database \<Rightarrow> Response \<times> database" where
  "post_complete env req db =
     (case complete_try env req db of
        (Inr response, db1) \<Rightarrow> (response, db1)
      | (Inl error, db1) \<Rightarrow> answer_failure env req ''Failed to complete training'' error db1)"

text \<open>\<open>POST /api/admin/nutrition/plans/:id/complete\<close>\<close>

definition nutrition_complete_try :: "Env \<Rightarrow> Request \<Rightarrow> database \<Rightarrow> (thrown + Response) \<times> database" where
  "nutrition_complete_try env req db =
     (let adminTelegramId = resolveAdminTelegramId env req in
      if \<not> truthy_id adminTelegramId then
        (Inr \<lparr>res_status = 400, res_body = Json_message ''adminTelegramId is required''\<rparr>, db)
      else
        guarded_transition env req NutritionOrderModel ''accepted''
          (\<lambda>ord. ord\<lparr>order_status := ''completed'',
                      order_adminTelegramId := adminTelegramId,
                      completedAt := Some (env_now env)\<rparr>)
          ''Plan not found'' ''completed'' ''completed'' db)"

definition post_nutrition_complete :: "Env \<Rightarrow> Request \<Rightarrow> database \<Rightarrow> Response \<times> database" where
  "post_nutrition_complete env req db =
     (case nutrition_complete_try env req db of
        (Inr response, db1) \<Rightarrow> (response, db1)
      | (Inl error, db1) \<Rightarrow> answer_failure env req ''Failed to complete nutrition plan'' error db1)"

text \<open>The six routes: which handler serves a transition of a model.\<close>

datatype transition = Accept | Decline | Complete

definition handler :: "order_model \<Rightarrow> transition \<Rightarrow> Env \<Rightarrow> Request \<Rightarrow> database \<Rightarrow> Response \<times> database" where
  "handler m t =
     (case (m, t) of
        (OrderModel, Accept) \<Rightarrow> post_accept
      | (OrderModel, Decline) \<Rightarrow> post_decline
      | (OrderModel, Complete) \<Rightarrow> post_complete
      | (NutritionOrderModel, Accept) \<Rightarrow> post_nutrition_accept
      | (NutritionOrderModel, Decline) \<Rightarrow> post_nutrition_decline
      | (NutritionOrderModel, Complete) \<Rightarrow> post_nutrition_complete)"

subsection \<open>Reading the outcome of a transition\<close>

text \<open>
  Between the orders before and after a handler: every document is the same as before,
  or it had the identifier asked for and the guard status.
\<close>

definition only_guarded_change :: "string \<Rightarrow> string \<Rightarrow> Order list \<Rightarrow> Order list \<Rightarrow> bool" where
  "only_guarded_change ident guard before after =
     list_all2 (\<lambda>b a. a = b \<or> (order_id b = ident \<and> order_status b = guard)) before after"

definition matching_order :: "string \<Rightarrow> string \<Rightarrow> Order list \<Rightarrow> Order option" where
  "matching_order ident guard coll = find (\<lambda>ord. order_id ord = ident \<and> order_status ord = guard) coll"

text \<open>The status a handler asks for, the status it sets, and its answer when nothing matched.\<close>

definition guard_status :: "transition \<Rightarrow> string" where
  "guard_status t = (case t of Accept \<Rightarrow> ''pending'' | Decline \<Rightarrow> ''pending'' | Complete \<Rightarrow> ''accepted'')"

definition new_status :: "transition \<Rightarrow> string" where
  "new_status t = (case t of Accept \<Rightarrow> ''accepted'' | Decline \<Rightarrow> ''declined'' | Complete \<Rightarrow> ''completed'')"

definition not_found_message :: "order_model \<Rightarrow> transition \<Rightarrow> string" where
  "not_found_message m t =
     (case t of
        Accept \<Rightarrow> ''Request not found''
      | Decline \<Rightarrow> ''Request not found''
      | Complete \<Rightarrow> (case m of OrderModel \<Rightarrow> ''Training not found''
                             | NutritionOrderModel \<Rightarrow> ''Plan not found''))"

definition other_model :: "order_model \<Rightarrow> order_model" where
  "other_model m = (case m of OrderModel \<Rightarrow> NutritionOrderModel | NutritionOrderModel \<Rightarrow> OrderModel)"

text \<open>
  The checks of a handler before its guarded update. An admin identifier resolves. For
  the accept handlers: the attachment of the request, the empty string when it is not a
  string; whether it passes the Excel check; and what storing it gives.
\<close>

definition admin_resolved :: "Env \<Rightarrow> Request \<Rightarrow> bool" where
  "admin_resolved env req = truthy_id (resolveAdminTelegramId env req)"

definition attachment_of :: "Request \<Rightarrow> string" where
  "attachment_of req = (case body_attachmentData req of JString s \<Rightarrow> s | _ \<Rightarrow> [])"

definition attachment_is_excel :: "Env \<Rightarrow> Request \<Rightarrow> bool" where
  "attachment_is_excel env req =
     env_isExcelAttachment env (string_field (body_attachmentName req))
       (string_field (body_attachmentMimeType req)) (attachment_of req)"

definition store_attachment :: "Env \<Rightarrow> Request \<Rightarrow> thrown + SavedAttachment" where
  "store_attachment env req =
     env_saveAttachment env (attachment_of req) (string_field (body_attachmentName req))
       (string_field (body_attachmentMimeType req))"

text \<open>
  A request passes the attachment checks of its handler: nothing to pass for decline and
  complete; for accept the attachment is given, is an Excel file, and is stored.
\<close>

definition attachment_stored :: "transition \<Rightarrow> Env \<Rightarrow> Request \<Rightarrow> bool" where
  "attachment_stored t env req =
     (t \<noteq> Accept \<or> (attachment_of req \<noteq> [] \<and> attachment_is_excel env req \<and> \<not> isl (store_attachment env req)))"

text \<open>
  A request gets as far as the guarded update, and the update returns: the admin
  identifier resolves, the attachment checks pass, and the query does not throw.
\<close>

definition admitted :: "transition \<Rightarrow> Env \<Rightarrow> Request \<Rightarrow> bool" where
  "admitted t env req =
     (admin_resolved env req \<and> attachment_stored t env req \<and> env_order_fault env = None)"

text \<open>
  Something is thrown before the guarded update has changed a document: storing the
  attachment throws (accept only), or the query throws.
\<close>

definition thrown_before_update :: "transition \<Rightarrow> Env \<Rightarrow> Request \<Rightarrow> bool" where
  "thrown_before_update t env req =
     (admin_resolved env req
      \<and> (if t = Accept
         then attachment_of req \<noteq> [] \<and> attachment_is_excel env req
              \<and> (isl (store_attachment env req) \<or> env_order_fault env \<noteq> None)
         else env_order_fault env \<noteq> None))"

definition bad_request :: "string \<Rightarrow> Response" where
  "bad_request message = \<lparr>res_status = 400, res_body = Json_message message\<rparr>"

subsection \<open>Refreshing the users\<close>

text \<open>
  \<open>POST /api/admin/users/refresh\<close> asks Telegram for the chat of every user that is
  not a bot and writes what it learns to the user. What the outside does in one
  iteration of its loop: the answer of \<open>getChat\<close> (\<open>None\<close> for an answer that is not
  ok or has no result), the file path of the photo (\<open>None\<close> when there is none), and
  whether the update of the user fails.
\<close>

record ChatResult =
  chat_id :: "int option"
  chat_first_name :: "string option"
  chat_last_name :: "string option"
  chat_username :: "string option"
  chat_big_file_id :: "string option"

record refresh_calls =
  fetchChat :: "thrown + ChatResult option"
  fetchFilePath :: "thrown + string option"
  update_fault :: "thrown option"

text \<open>
  The body of the \<open>try\<close> inside the loop, for a user with identifier \<open>tid\<close>: \<open>None\<close>
  when the chat is not usable (\<open>failedCount += 1; continue\<close>), the users after the
  update otherwise.
\<close>

definition refresh_try :: "string \<Rightarrow> refresh_calls \<Rightarrow> int \<Rightarrow> User list \<Rightarrow> thrown + User list option" where
  "refresh_try botToken calls tid us =
     (case fetchChat calls of
        Inl e \<Rightarrow> Inl e
      | Inr None \<Rightarrow> Inr None
      | Inr (Some chat) \<Rightarrow>
          (let set_chat = (\<lambda>u. u\<lparr>chatId := Some (case chat_id chat of None \<Rightarrow> tid | Some c \<Rightarrow> c)\<rparr>);
               set_first = (\<lambda>u. case chat_first_name chat of None \<Rightarrow> u | Some v \<Rightarrow> u\<lparr>firstName := Some v\<rparr>);
               set_last = (\<lambda>u. case chat_last_name chat of None \<Rightarrow> u | Some v \<Rightarrow> u\<lparr>lastName := Some v\<rparr>);
               set_username = (\<lambda>u. case chat_username chat of None \<Rightarrow> u | Some v \<Rightarrow> u\<lparr>username := Some v\<rparr>)
           in case (if truthy (chat_big_file_id chat) then
                      (case fetchFilePath calls of
                         Inl e \<Rightarrow> Inl e
                       | Inr filePath \<Rightarrow>
                           Inr (\<lambda>u. (if truthy filePath
                                      then u\<lparr>photoUrl := Some (''https://api.telegram.org/file/bot'' @ botToken @ ''/''
                                                                @ (case filePath of None \<Rightarrow> [] | Some v \<Rightarrow> v))\<rparr>
                                      else u)\<lparr>photoFileId := chat_big_file_id chat\<rparr>))
                    else Inr (\<lambda>u. u)) of
                Inl e \<Rightarrow> Inl e
              | Inr set_photo \<Rightarrow>
                  (case update_fault calls of
                     Some e \<Rightarrow> Inl e
                   | None \<Rightarrow>
                       Inr (Some (updateOne tid
                                    (\<lambda>u. set_photo (set_username (set_last (set_first (set_chat u))))) us)))))"

text \<open>
  One iteration: a user without identifier (missing or 0) is skipped; otherwise the
  \<open>try\<close> runs and the \<open>catch\<close> books a thrown value as a failure. The state of the
  loop is the two counters and the users of the database.
\<close>

definition refresh_one ::
  "string \<Rightarrow> refresh_calls \<Rightarrow> User \<Rightarrow> nat \<times> nat \<times> User list \<Rightarrow> (thrown + unit) \<times> (nat \<times> nat \<times> User list)" where
  "refresh_one botToken calls user s =
     (case s of
        (updatedCount', failedCount', us) \<Rightarrow>
          (case telegramId user of
             None \<Rightarrow> (Inr (), s)
           | Some tid \<Rightarrow>
               if tid = 0 then (Inr (), s)
               else
                 (case refresh_try botToken calls tid us of
                    Inr (Some us') \<Rightarrow> (Inr (), (updatedCount' + 1, failedCount', us'))
                  | Inr None \<Rightarrow> (Inr (), (updatedCount', failedCount' + 1, us))
                  | Inl error \<Rightarrow> (Inr (), (updatedCount', failedCount' + 1, us)))))"

fun refresh_loop ::
  "string \<Rightarrow> (nat \<Rightarrow> refresh_calls) \<Rightarrow> (nat \<times> User) list \<Rightarrow> nat \<times> nat \<times> User list
     \<Rightarrow> (thrown + unit) \<times> (nat \<times> nat \<times> User list)" where
  "refresh_loop botToken calls [] s = (Inr (), s)"
| "refresh_loop botToken calls ((i, user) # rest) s =
     (case refresh_one botToken (calls i) user s of
        (Inl e, s') \<Rightarrow> (Inl e, s')
      | (Inr u, s') \<Rightarrow> refresh_loop botToken calls rest s')"

text \<open>
  The handler. The two user queries before the loop fail together or not at all
  (\<open>env_user_fault\<close>); the \<open>catch\<close> logs and answers 500.
\<close>

definition post_users_refresh ::
  "(nat \<Rightarrow> refresh_calls) \<Rightarrow> Env \<Rightarrow> Request \<Rightarrow> database \<Rightarrow> Response \<times> database" where
  "post_users_refresh calls env req db =
     (let adminTelegramId = resolveAdminTelegramId env req;
          failed = (\<lambda>error db1.
                      (\<lparr>res_status = 500, res_body = Json_message ''Failed to refresh users''\<rparr>,
                       snd (logAppError (env_log_faults env) (env_now env) (Caught error) (api_log_context req) db1)))
      in if \<not> truthy_id adminTelegramId then
           (\<lparr>res_status = 400, res_body = Json_message ''adminTelegramId is required''\<rparr>, db)
         else
           (case env_user_fault env of
              Some error \<Rightarrow> failed error db
            | None \<Rightarrow>
                if find (\<lambda>u. telegramId u = adminTelegramId \<and> isAdmin u) (users db) = None then
                  (\<lparr>res_status = 403, res_body = Json_message ''Not authorized''\<rparr>, db)
                else if env_TELEGRAM_BOT_TOKEN env = [] then
                  (\<lparr>res_status = 500, res_body = Json_message ''Bot token not configured''\<rparr>, db)
                else
                  (let found = filter (\<lambda>u. \<not> isBot u) (users db) in
                   case refresh_loop (env_TELEGRAM_BOT_TOKEN env) calls (enumerate 0 found)
                          (0, 0, users db) of
                     (Inl error, (updatedCount', failedCount', us)) \<Rightarrow> failed error (db\<lparr>users := us\<rparr>)
                   | (Inr u, (updatedCount', failedCount', us)) \<Rightarrow>
                       (\<lparr>res_status = 200,
                         res_body = Json_counts (length found) updatedCount' failedCount'\<rparr>,
                        db\<lparr>users := us\<rparr>))))"

text \<open>
  An iteration counts as updated when the chat is usable, the file path of its photo
  (when it has one) is read without a throw, and the update does not fail.
\<close>

definition has_telegramId :: "User \<Rightarrow> bool" where
  "has_telegramId user = truthy_id (telegramId user)"

definition refresh_ok :: "refresh_calls \<Rightarrow> bool" where
  "refresh_ok calls =
     (case fetchChat calls of
        Inr (Some chat) \<Rightarrow>
          (if truthy (chat_big_file_id chat) then \<not> isl (fetchFilePath calls) else True)
          \<and> update_fault calls = None
      | _ \<Rightarrow> False)"

section \<open>Example states\<close>

definition no_fault :: faults where
  "no_fault = \<lparr>create_fault = None, count_fault = None, find_fault = None, delete_fault = None\<rparr>"

definition all_fault :: faults where
  "all_fault = \<lparr>create_fault = Some (ErrorObj ''write failed'' None),
                 count_fault = Some (ErrorObj ''count failed'' None),
                 find_fault = Some (ErrorObj ''find failed'' None),
                 delete_fault = Some (ErrorObj ''delete failed'' None)\<rparr>"

definition api_context :: LogContext where
  "api_context = \<lparr>ctx_source = ''api'', ctx_path = Some ''/api/admin/errors'',
                   ctx_method = Some ''GET'', ctx_status = Some 500, ctx_adminTelegramId = None\<rparr>"

definition empty_db :: database where
  "empty_db = \<lparr>appErrors = \<lparr>docs = [], next_id = 0\<rparr>, broadcasts = \<lparr>docs = [], next_id = 0\<rparr>,
                users = [], orders = [], nutritionOrders = []\<rparr>"

text \<open>A database whose error ledger holds 500 entries, created at the instants 0 to 499.\<close>

definition full_db :: database where
  "full_db = empty_db\<lparr>appErrors :=
     \<lparr>docs = map (\<lambda>i. \<lparr>doc_id = i, createdAt = i,
                          payload = build_payload ''boom'' None api_context\<rparr>) [0..<500],
      next_id = 500\<rparr>\<rparr>"

definition example_user :: "int \<Rightarrow> int option \<Rightarrow> bool \<Rightarrow> string \<Rightarrow> User" where
  "example_user uid chat is_bot name =
     \<lparr>telegramId = Some uid, chatId = chat, isBot = is_bot, firstName = Some name, lastName = None,
      username = None, photoFileId = None, photoUrl = None,
      isAdmin = False, trainingStatus = ''none'', nutritionStatus = None\<rparr>"

text \<open>The call made in the second iteration of the loop fails, every other one succeeds.\<close>

definition second_fails :: "nat \<Rightarrow> thrown option" where
  "second_fails i = (if i = 1 then Some (ErrorObj ''Forbidden: bot was blocked by the user'' None) else None)"

definition zero_tally :: Tally where
  "zero_tally = \<lparr>successCount = 0, failedCount = 0, deliveredNames = [], failedNames = []\<rparr>"

text \<open>
  Five known users: two reachable ones, one without \<open>chatId\<close>, one with \<open>chatId\<close> 0 and
  one bot account.
\<close>

definition five_users_db :: database where
  "five_users_db = empty_db\<lparr>users :=
     [example_user 11 (Some 11) False ''Ann'',
      example_user 12 None False ''Dan'',
      example_user 13 (Some 13) False ''Bob'',
      example_user 14 (Some 0) False ''Eve'',
      example_user 15 (Some 15) True ''Bot'']\<rparr>"

definition preview_draft :: BroadcastDraft where
  "preview_draft = \<lparr>step = preview, photoFileIds = [''a''], draft_text = Some ''hello'',
                    mediaGroupId = None, mediaGroupTimer = None\<rparr>"

definition album_photo :: "string \<Rightarrow> PhotoUpdate" where
  "album_photo f = \<lparr>from_id = Some 1, photo = [''thumb'', f], media_group_id = Some ''album''\<rparr>"

text \<open>An album of four photos, 100 ms apart.\<close>

definition album_of_four :: "(nat \<times> PhotoUpdate) list" where
  "album_of_four =
     [(0, album_photo ''a''), (100, album_photo ''b''), (200, album_photo ''c''), (300, album_photo ''d'')]"

text \<open>The draft after an album of three photos, before and after its callback has run.\<close>

definition full_draft :: BroadcastDraft where
  "full_draft = \<lparr>step = await_photos, photoFileIds = [''a'', ''b'', ''c''], draft_text = None,
                 mediaGroupId = Some ''album'', mediaGroupTimer = Some 900\<rparr>"

definition settled_draft :: BroadcastDraft where
  "settled_draft = \<lparr>step = await_text, photoFileIds = [''a'', ''b'', ''c''], draft_text = None,
                    mediaGroupId = Some ''album'', mediaGroupTimer = None\<rparr>"

text \<open>The five users again, with a broadcast ledger that holds 500 entries.\<close>

definition full_broadcasts_db :: database where
  "full_broadcasts_db = five_users_db\<lparr>broadcasts :=
     \<lparr>docs = map (\<lambda>i. \<lparr>doc_id = i, createdAt = i,
                          payload = \<lparr>bc_adminTelegramId = 1, bc_text = ''news'', bc_photoFileIds = [''a''],
                                     bc_totalRecipients = 2, bc_successCount = 2, bc_failedCount = 0\<rparr>\<rparr>)
                   [0..<500],
      next_id = 500\<rparr>\<rparr>"

text \<open>
  An environment in which nothing fails: the file store holds one workbook with one
  sheet, the string ''8'' is the number 8, and no admin identifier is configured.
\<close>

definition example_env :: Env where
  "example_env =
     \<lparr>env_Number = (\<lambda>s. if s = ''8'' then Some 8 else None),
      env_ADMIN_TELEGRAM_ID = None,
      env_TELEGRAM_BOT_TOKEN = ''123:abc'',
      env_now = 5000,
      env_parseDate = (\<lambda>s. None),
      env_readWorkbook = (\<lambda>n. Inr \<lparr>SheetNames = [''Plan''],
                                     Sheets = (\<lambda>s. if s = ''Plan''
                                                 then Some [[Some ''Day'', Some ''Exercise''], [Some ''1'', None]]
                                                 else None)\<rparr>),
      env_isExcelAttachment = (\<lambda>n m d. True),
      env_saveAttachment = (\<lambda>d n m. Inr \<lparr>saved_attachmentUrl = ''/uploads/training-1.xlsx'',
                                           saved_attachmentFileName = ''plan.xlsx'',
                                           saved_attachmentMimeType = ''application/vnd.ms-excel''\<rparr>),
      env_order_fault = None,
      env_user_fault = None,
      env_log_faults = no_fault\<rparr>"

text \<open>A request for the order \<open>ident\<close> that carries no identifier of the caller at all.\<close>

definition plain_request :: "string \<Rightarrow> Request" where
  "plain_request ident =
     \<lparr>req_path = ''/'', req_method = ''GET'', params_id = ident, initDataId = None,
      query_telegramId = JUndefined, body_telegramId = JUndefined, header_telegramId = None,
      query_adminTelegramId = JUndefined, body_adminTelegramId = JUndefined,
      body_attachmentData = JUndefined, body_attachmentName = JUndefined,
      body_attachmentMimeType = JUndefined, body_trainingDate = JUndefined\<rparr>"

text \<open>One pending order, \<open>65a1b2c3d4e5f60718293a4b\<close>, of the user 7, with a stored attachment.\<close>

definition one_order_db :: database where
  "one_order_db = empty_db\<lparr>orders :=
     [\<lparr>order_id = ''65a1b2c3d4e5f60718293a4b'', telegramUserId = 7, order_adminTelegramId = None,
       order_status = ''pending'', decisionAt = None, completedAt = None, trainingDate = None,
       attachmentUrl = Some ''/uploads/training-0.xlsx'', attachmentFileName = Some ''old.xlsx'',
       attachmentMimeType = None\<rparr>]\<rparr>"

text \<open>A request for the order \<open>ident\<close> sent by the admin 99.\<close>

definition admin_request :: "string \<Rightarrow> Request" where
  "admin_request ident = (plain_request ident)\<lparr>req_method := ''POST'', body_adminTelegramId := JNumber 99\<rparr>"

section \<open>Properties of the error ledger\<close>

subsection \<open>Pruning by identifier\<close>

lemma filter_perm_mset:
  assumes "mset xs = mset ys"
  shows "mset (filter P xs) = mset (filter P ys)"
  using assms by (simp only: mset_filter)

text \<open>
  Deleting the identifiers of the first \<open>k\<close> documents in creation order leaves, up to
  order, what of the remaining documents does not share an identifier with them.
\<close>

lemma prune_split:
  fixes ds :: "'p doc list"
  defines "s \<equiv> sort_key createdAt ds"
  shows "mset (filter (\<lambda>d. doc_id d \<notin> set (map doc_id (take k s))) ds)
         = mset (filter (\<lambda>d. doc_id d \<notin> set (map doc_id (take k s))) (drop k s))"
proof -
  let ?P = "\<lambda>d. doc_id d \<notin> set (map doc_id (take k s))"
  have perm: "mset ds = mset s" by (simp add: s_def)
  have "filter ?P s = filter ?P (take k s) @ filter ?P (drop k s)"
    by (simp only: filter_append [symmetric] append_take_drop_id)
  moreover have "filter ?P (take k s) = []"
    by (auto simp: filter_empty_conv)
  ultimately have "filter ?P s = filter ?P (drop k s)" by simp
  then have "mset (filter ?P s) = mset (filter ?P (drop k s))" by (rule arg_cong)
  with filter_perm_mset [OF perm, of ?P] show ?thesis by (rule trans)
qed

lemma prune_length_le:
  fixes ds :: "'p doc list"
  shows "length (filter (\<lambda>d. doc_id d \<notin> set (map doc_id (take k (sort_key createdAt ds)))) ds)
         \<le> length ds - k"
proof -
  let ?s = "sort_key createdAt ds"
  let ?P = "\<lambda>d. doc_id d \<notin> set (map doc_id (take k ?s))"
  have "mset (filter ?P ds) = mset (filter ?P (drop k ?s))"
    by (rule prune_split)
  then have "length (filter ?P ds) = length (filter ?P (drop k ?s))"
    by (rule mset_eq_length)
  also have "\<dots> \<le> length (drop k ?s)" by (rule length_filter_le)
  also have "\<dots> = length ds - k" by simp
  finally show ?thesis .
qed

lemma prune_distinct:
  fixes ds :: "'p doc list"
  assumes "distinct (map doc_id ds)"
  shows "mset (filter (\<lambda>d. doc_id d \<notin> set (map doc_id (take k (sort_key createdAt ds)))) ds)
         = mset (drop k (sort_key createdAt ds))"
proof -
  let ?s = "sort_key createdAt ds"
  let ?P = "\<lambda>d. doc_id d \<notin> set (map doc_id (take k ?s))"
  have "mset (map doc_id ?s) = mset (map doc_id ds)" by simp
  then have "distinct (map doc_id ?s)" using assms
    by (metis mset_eq_imp_distinct_iff)
  then have "distinct (map doc_id (take k ?s @ drop k ?s))" by simp
  then have "set (map doc_id (take k ?s)) \<inter> set (map doc_id (drop k ?s)) = {}"
    unfolding map_append distinct_append by blast
  then have "filter ?P (drop k ?s) = drop k ?s"
    by (auto simp: filter_id_conv)
  then show ?thesis using prune_split [of k ds] by simp
qed

lemma sorted_take_drop_le:
  assumes "sorted (map f s)" and "x \<in> set (take k s)" and "y \<in> set (drop k s)"
  shows "f x \<le> f y"
proof -
  have "sorted (map f (take k s) @ map f (drop k s))"
    using assms(1) by (simp only: map_append [symmetric] append_take_drop_id)
  then show ?thesis using assms(2,3) by (auto simp: sorted_append)
qed

lemma take_oldest_nonempty:
  "500 < length xs \<Longrightarrow> take (length xs - 500) (sort_key createdAt xs) \<noteq> []"
  by (cases xs) auto

lemma wf_collection_create:
  assumes "wf_collection c"
  shows "wf_collection (snd (create None now p c))"
  using assms
  by (auto simp: wf_collection_def create_def list_all_iff intro: less_SucI)

subsection \<open>One call of \<open>logAppError\<close> without faults\<close>

lemma logAppError_try_ok:
  assumes "no_faults fl"
  shows "logAppError_try fl now message stack ctx c =
     (Inr (),
      let c1 = snd (create None now (build_payload message stack ctx) c) in
      if length (docs c1) > 500 then
        c1\<lparr>docs := filter (\<lambda>d. doc_id d \<notin> set (map doc_id
                 (take (length (docs c1) - 500) (sort_key createdAt (docs c1))))) (docs c1)\<rparr>
      else c1)"
  using assms
    take_oldest_nonempty [of "docs c @ [\<lparr>doc_id = next_id c, createdAt = now,
                                          payload = build_payload message stack ctx\<rparr>]"]
  by (simp add: logAppError_try_def no_faults_def create_def countDocuments_def
      find_oldest_ids_def deleteMany_def Let_def)

lemma logAppError_ok_count:
  assumes "no_faults fl"
  shows "length (docs (appErrors (snd (logAppError fl now (Caught err) ctx db)))) \<le> 500"
proof -
  let ?c = "snd (create None now (build_payload (message_text err) (stack_text err) ctx) (appErrors db))"
  show ?thesis
  proof (cases "length (docs ?c) > 500")
    case True
    have "length (filter (\<lambda>d. doc_id d \<notin> set (map doc_id
                 (take (length (docs ?c) - 500) (sort_key createdAt (docs ?c))))) (docs ?c))
          \<le> length (docs ?c) - (length (docs ?c) - 500)"
      by (rule prune_length_le)
    also have "\<dots> = 500" using True by simp
    finally show ?thesis using True
      by (simp add: logAppError_def error_message_def error_stack_def logAppError_try_ok [OF assms] Let_def)
  next
    case False
    then show ?thesis
      by (simp add: logAppError_def error_message_def error_stack_def logAppError_try_ok [OF assms] Let_def)
  qed
qed

lemma logAppError_all_append:
  "logAppError_all (xs @ ys) db = logAppError_all ys (logAppError_all xs db)"
  by (induction xs arbitrary: db) auto

lemma wf_full_db: "wf_collection (appErrors full_db)"
  by (simp add: full_db_def wf_collection_def list_all_iff comp_def)

text \<open>
  Claim C1. Take any sequence of calls of \<open>logAppError\<close>, from any database. After
  every call of the sequence in which no persistence call fails (the \<open>n\<close>-th, for any
  \<open>n\<close> from 1 to the length of the sequence), whatever happened in the calls before
  it, the error ledger holds at most 500 entries.
\<close>

theorem logAppError_capacity:
  assumes "0 < n" and "n \<le> length calls" and "no_faults (fst (calls ! (n - 1)))"
  shows "length (docs (appErrors (logAppError_all (take n calls) db))) \<le> 500"
proof -
  from assms(1,2) obtain m where n: "n = Suc m" and m: "m < length calls"
    by (cases n) auto
  obtain fl now err ctx where call: "calls ! m = (fl, now, err, ctx)"
    by (cases "calls ! m") auto
  from assms(3) n call have nf: "no_faults fl" by simp
  have "take n calls = take m calls @ [calls ! m]"
    using m n by (simp add: take_Suc_conv_app_nth)
  then have "logAppError_all (take n calls) db
      = snd (logAppError fl now (Caught err) ctx (logAppError_all (take m calls) db))"
    by (simp add: logAppError_all_append call)
  then show ?thesis using logAppError_ok_count [OF nf] by simp
qed

theorem logAppError_capacity_witness:
  "no_faults no_fault
   \<and> length (docs (appErrors (logAppError_all
        (take 2 [(all_fault, 1000, NonError ''late'', api_context),
                 (no_fault, 1001, ErrorObj ''later'' None, api_context)]) full_db))) \<le> 500"
proof -
  have nf: "no_faults no_fault" by (simp add: no_faults_def no_fault_def)
  then have h: "no_faults (fst ([(all_fault, 1000, NonError ''late'', api_context),
                    (no_fault, 1001, ErrorObj ''later'' None, api_context)] ! (2 - 1)))"
    by simp
  show ?thesis
    using nf logAppError_capacity [OF _ _ h, of full_db] by simp
qed

text \<open>
  Claim C2. When the ledger is well formed and already holds at least 500 entries, a
  call without faults removes exactly \<open>count - 500\<close> entries of the ledger as it is
  after the insertion, 500 stay, and no removed entry was created later than an entry
  that stays: the removed ones are the oldest, the retained ones the 500 most recently
  created. When no two entries were created at the same instant, every removed entry
  is strictly older than every entry that stays.
\<close>

theorem logAppError_evicts_oldest:
  assumes "no_faults fl" and "wf_collection (appErrors db)"
    and "500 \<le> length (docs (appErrors db))"
  shows "let entry = \<lparr>doc_id = next_id (appErrors db), createdAt = now,
                      payload = build_payload (message_text err) (stack_text err) ctx\<rparr>;
             before = docs (appErrors db) @ [entry];
             after = docs (appErrors (snd (logAppError fl now (Caught err) ctx db)))
         in \<exists>removed.
              mset before = mset removed + mset after \<and>
              length removed = length before - 500 \<and>
              length after = 500 \<and>
              (\<forall>r \<in> set removed. \<forall>k \<in> set after. createdAt r \<le> createdAt k) \<and>
              (distinct (map createdAt before)
                 \<longrightarrow> (\<forall>r \<in> set removed. \<forall>k \<in> set after. createdAt r < createdAt k))"
proof -
  let ?p = "build_payload (message_text err) (stack_text err) ctx"
  let ?c1 = "snd (create None now ?p (appErrors db))"
  let ?before = "docs ?c1"
  let ?s = "sort_key createdAt ?before"
  let ?k = "length ?before - 500"
  let ?after = "docs (appErrors (snd (logAppError fl now (Caught err) ctx db)))"
  have before: "?before = docs (appErrors db) @
      [\<lparr>doc_id = next_id (appErrors db), createdAt = now, payload = ?p\<rparr>]"
    by (simp add: create_def)
  have big: "500 < length ?before" using assms(3) by (simp add: create_def)
  have after: "?after = filter (\<lambda>d. doc_id d \<notin> set (map doc_id (take ?k ?s))) ?before"
    using big by (simp add: logAppError_def error_message_def error_stack_def logAppError_try_ok [OF assms(1)] Let_def)
  have "wf_collection ?c1" using assms(2) by (rule wf_collection_create)
  then have dist: "distinct (map doc_id ?before)" by (simp add: wf_collection_def)
  have mset_after: "mset ?after = mset (drop ?k ?s)"
    unfolding after using dist by (rule prune_distinct)
  have "mset ?s = mset (take ?k ?s) + mset (drop ?k ?s)"
    by (simp only: mset_append [symmetric] append_take_drop_id)
  moreover have "mset ?s = mset ?before" by (rule mset_sort)
  ultimately have split: "mset ?before = mset (take ?k ?s) + mset ?after"
    by (simp only: mset_after)
  have len_removed: "length (take ?k ?s) = ?k" by simp
  have "length ?after = length (drop ?k ?s)" using mset_after by (rule mset_eq_length)
  then have len_after: "length ?after = 500" using big by simp
  have set_after: "set ?after = set (drop ?k ?s)" using mset_after by (rule mset_eq_setD)
  have order: "\<forall>r \<in> set (take ?k ?s). \<forall>k \<in> set ?after. createdAt r \<le> createdAt k"
    unfolding set_after using sorted_take_drop_le [of createdAt ?s _ ?k] by simp
  have strict: "\<forall>r \<in> set (take ?k ?s). \<forall>k \<in> set ?after. createdAt r < createdAt k"
    if d: "distinct (map createdAt ?before)"
  proof -
    have "mset (map createdAt ?s) = mset (map createdAt ?before)" by simp
    then have "distinct (map createdAt ?s)" using d by (metis mset_eq_imp_distinct_iff)
    then have "distinct (map createdAt (take ?k ?s @ drop ?k ?s))" by simp
    then have "set (map createdAt (take ?k ?s)) \<inter> set (map createdAt (drop ?k ?s)) = {}"
      unfolding map_append distinct_append by blast
    then have "\<forall>r \<in> set (take ?k ?s). \<forall>k \<in> set (drop ?k ?s). createdAt r \<noteq> createdAt k"
      by auto
    with order show ?thesis unfolding set_after by (meson le_neq_implies_less)
  qed
  from split len_removed len_after order strict
  have "\<exists>removed. mset ?before = mset removed + mset ?after \<and>
              length removed = length ?before - 500 \<and>
              length ?after = 500 \<and>
              (\<forall>r \<in> set removed. \<forall>k \<in> set ?after. createdAt r \<le> createdAt k) \<and>
              (distinct (map createdAt ?before)
                 \<longrightarrow> (\<forall>r \<in> set removed. \<forall>k \<in> set ?after. createdAt r < createdAt k))"
    by blast
  then show ?thesis unfolding Let_def before [symmetric] .
qed

theorem logAppError_evicts_oldest_witness:
  "no_faults no_fault \<and> wf_collection (appErrors full_db)
   \<and> 500 \<le> length (docs (appErrors full_db))
   \<and> (\<exists>removed :: AppErrorPayload doc list. length removed = 1
         \<and> length (docs (appErrors (snd (logAppError no_fault 1000 (Caught (NonError ''late'')) api_context full_db)))) = 500
         \<and> (\<forall>r \<in> set removed.
              \<forall>k \<in> set (docs (appErrors (snd (logAppError no_fault 1000 (Caught (NonError ''late'')) api_context full_db)))).
                createdAt r \<le> createdAt k))"
proof -
  let ?after = "docs (appErrors (snd (logAppError no_fault 1000 (Caught (NonError ''late'')) api_context full_db)))"
  let ?before = "docs (appErrors full_db) @
      [\<lparr>doc_id = next_id (appErrors full_db), createdAt = 1000,
        payload = build_payload (message_text (NonError ''late'')) (stack_text (NonError ''late''))
                    api_context\<rparr>]"
  have h1: "no_faults no_fault" by (simp add: no_faults_def no_fault_def)
  have h3: "500 \<le> length (docs (appErrors full_db))" by (simp add: full_db_def)
  have one: "length ?before - 500 = 1" by (simp add: full_db_def)
  have "\<exists>removed :: AppErrorPayload doc list. mset ?before = mset removed + mset ?after \<and>
           length removed = length ?before - 500 \<and> length ?after = 500 \<and>
           (\<forall>r \<in> set removed. \<forall>k \<in> set ?after. createdAt r \<le> createdAt k) \<and>
           (distinct (map createdAt ?before)
              \<longrightarrow> (\<forall>r \<in> set removed. \<forall>k \<in> set ?after. createdAt r < createdAt k))"
    using logAppError_evicts_oldest [OF h1 wf_full_db h3, of 1000 "NonError ''late''" api_context]
    unfolding Let_def .
  then have "\<exists>removed :: AppErrorPayload doc list. mset ?before = mset removed + mset ?after \<and>
           length removed = 1 \<and> length ?after = 500 \<and>
           (\<forall>r \<in> set removed. \<forall>k \<in> set ?after. createdAt r \<le> createdAt k) \<and>
           (distinct (map createdAt ?before)
              \<longrightarrow> (\<forall>r \<in> set removed. \<forall>k \<in> set ?after. createdAt r < createdAt k))"
    unfolding one .
  then have "\<exists>removed :: AppErrorPayload doc list. length removed = 1 \<and> length ?after = 500
      \<and> (\<forall>r \<in> set removed. \<forall>k \<in> set ?after. createdAt r \<le> createdAt k)"
    by blast
  with h1 wf_full_db h3 show ?thesis by (intro conjI)
qed

text \<open>
  With a caught value that has its conversions, whichever of the persistence calls
  fail, \<open>logAppError\<close> returns normally; of the database it touches the error ledger only.
\<close>

lemma logAppError_caught_returns:
  "fst (logAppError fl now (Caught err) ctx db) = Inr ()
   \<and> broadcasts (snd (logAppError fl now (Caught err) ctx db)) = broadcasts db
   \<and> users (snd (logAppError fl now (Caught err) ctx db)) = users db
   \<and> orders (snd (logAppError fl now (Caught err) ctx db)) = orders db
   \<and> nutritionOrders (snd (logAppError fl now (Caught err) ctx db)) = nutritionOrders db"
  by (simp add: logAppError_def error_message_def Let_def split: prod.splits sum.splits)

text \<open>
  The conversion of the error value stands before the \<open>try\<close>: what it throws is thrown
  by \<open>logAppError\<close>, whatever the persistence calls would have done.
\<close>

lemma logAppError_conversion_throws:
  "logAppError fl now Unconvertible ctx db = (Inl conversion_error, db)"
  by (simp add: logAppError_def error_message_def)

text \<open>
  Claim C3 says that \<open>logAppError\<close> never raises an error to its caller, for every input
  error value. The \<open>catch\<close> of the function is there for that, but it does not cover the
  string conversion of line 15. For an error value without a string conversion, such as
  \<open>Object.create(null)\<close>, the call throws the \<open>TypeError\<close> of the conversion, with no
  persistence call failing, and nothing is logged.
\<close>

theorem logAppError_throws_on_unconvertible:
  "fst (logAppError no_fault 1000 Unconvertible api_context empty_db) = Inl conversion_error
   \<and> fst (logAppError no_fault 1000 Unconvertible api_context empty_db) \<noteq> Inr ()
   \<and> snd (logAppError no_fault 1000 Unconvertible api_context empty_db) = empty_db"
  by (simp add: logAppError_def error_message_def)

section \<open>Properties of the delivery\<close>

lemma deliver_one_cases:
  "deliver_one (api i) photos caption user t =
     Inr (if delivered_to api photos caption (i, user) then
            t\<lparr>successCount := successCount t + 1,
              deliveredNames := deliveredNames t @ [formatUserName user]\<rparr>
          else if failed_for api photos caption (i, user) then
            t\<lparr>failedCount := failedCount t + 1,
              failedNames := failedNames t @ [formatUserName user]\<rparr>
          else t)"
  by (simp add: deliver_one_def delivered_to_def failed_for_def split: option.splits sum.splits)

lemma deliver_loop_closed:
  "deliver_loop api photos caption xs t =
     Inr (t\<lparr>successCount := successCount t + length (filter (delivered_to api photos caption) xs),
            failedCount := failedCount t + length (filter (failed_for api photos caption) xs),
            deliveredNames := deliveredNames t
               @ map (\<lambda>(i, user). formatUserName user) (filter (delivered_to api photos caption) xs),
            failedNames := failedNames t
               @ map (\<lambda>(i, user). formatUserName user) (filter (failed_for api photos caption) xs)\<rparr>)"
proof (induction xs arbitrary: t)
  case Nil
  show ?case by simp
next
  case (Cons x xs)
  obtain i user where x: "x = (i, user)" by (cases x)
  have excl: "\<not> (delivered_to api photos caption (i, user) \<and> failed_for api photos caption (i, user))"
    by (auto simp: delivered_to_def failed_for_def split: option.splits)
  show ?case
    using excl by (simp add: x deliver_one_cases Cons.IH)
qed

lemma outcome_partition:
  "length (filter (delivered_to api photos caption) xs) + length (filter (failed_for api photos caption) xs)
     = length (filter (\<lambda>(i, user). has_destination user) xs)"
  by (induction xs)
     (auto simp: delivered_to_def failed_for_def has_destination_def split: option.splits)

lemma filter_enumerate_snd:
  "length (filter (\<lambda>(i, x). P x) (enumerate n xs)) = length (filter P xs)"
  by (induction xs arbitrary: n) auto

lemma deliver_loop_appends:
  "deliver_loop api photos caption (xs @ ys) t =
     (case deliver_loop api photos caption xs t of
        Inl e \<Rightarrow> Inl e
      | Inr t' \<Rightarrow> deliver_loop api photos caption ys t')"
  by (induction xs arbitrary: t) (auto split: sum.splits)

lemma broadcast_ledger_docs_subset:
  "set (docs (snd (broadcast_ledger fl now entry c)))
     \<subseteq> insert \<lparr>doc_id = next_id c, createdAt = now, payload = entry\<rparr> (set (docs c))"
  by (auto simp: broadcast_ledger_def create_def countDocuments_def find_oldest_ids_def
      deleteMany_def Let_def split: option.splits)

lemma deliver_loop_tally:
  "deliver_loop api photos caption (enumerate 0 found)
       \<lparr>successCount = 0, failedCount = 0, deliveredNames = [], failedNames = []\<rparr> = Inr t
   \<Longrightarrow> successCount t + failedCount t = length (filter has_destination found)"
  by (auto simp: deliver_loop_closed outcome_partition filter_enumerate_snd)

lemma find_recipients_destinations:
  "filter has_destination (find_recipients db)
     = filter (\<lambda>u. has_destination u \<and> \<not> isBot u) (users db)"
  by (auto simp: find_recipients_def has_destination_def intro!: filter_cong split: option.splits)
subsection \<open>The refresh loop\<close>

lemma refresh_one_step:
  "\<exists>us'. refresh_one botToken c user (n, m, us) =
     (Inr (), (n + (if has_telegramId user \<and> refresh_ok c then 1 else 0),
               m + (if has_telegramId user \<and> \<not> refresh_ok c then 1 else 0), us'))"
  by (auto simp: refresh_one_def refresh_try_def has_telegramId_def truthy_id_def refresh_ok_def
      Let_def split: option.splits sum.splits)

lemma refresh_loop_closed:
  "\<exists>us'. refresh_loop botToken calls xs (n, m, us) =
     (Inr (), (n + length (filter (\<lambda>(i, user). has_telegramId user \<and> refresh_ok (calls i)) xs),
               m + length (filter (\<lambda>(i, user). has_telegramId user \<and> \<not> refresh_ok (calls i)) xs),
               us'))"
proof (induction xs arbitrary: n m us)
  case Nil
  show ?case by simp
next
  case (Cons x xs)
  obtain i user where x: "x = (i, user)" by (cases x)
  obtain us1 where one: "refresh_one botToken (calls i) user (n, m, us) =
     (Inr (), (n + (if has_telegramId user \<and> refresh_ok (calls i) then 1 else 0),
               m + (if has_telegramId user \<and> \<not> refresh_ok (calls i) then 1 else 0), us1))"
    using refresh_one_step by blast
  from Cons.IH [of "n + (if has_telegramId user \<and> refresh_ok (calls i) then 1 else 0)"
                   "m + (if has_telegramId user \<and> \<not> refresh_ok (calls i) then 1 else 0)" us1]
  show ?case by (auto simp: x one)
qed

lemma refresh_partition:
  "length (filter (\<lambda>(i, user). has_telegramId user \<and> refresh_ok (calls i)) xs)
   + length (filter (\<lambda>(i, user). has_telegramId user \<and> \<not> refresh_ok (calls i)) xs)
   = length (filter (\<lambda>(i, user). has_telegramId user) xs)"
  by (induction xs) auto

text \<open>
  Claim C6. The delivery loop always runs to its end, whatever the sends do: its result
  is never a thrown value. Each user with a destination is booked once, by the outcome of
  its own send alone: the delivered names are the users whose send returned, the failed
  names the users whose send threw, both in the order of the loop, and the two counters
  are the lengths of these lists. The other loop of the repository that tallies
  successes and failures, the refresh of the users, behaves alike: it never ends with a
  thrown value, and each user with an identifier is counted once, as updated or as
  failed, by what its own iteration met.
\<close>

theorem deliver_loop_independent:
  "deliver_loop api photos caption xs
       \<lparr>successCount = 0, failedCount = 0, deliveredNames = [], failedNames = []\<rparr>
   = Inr \<lparr>successCount = length (filter (delivered_to api photos caption) xs),
          failedCount = length (filter (failed_for api photos caption) xs),
          deliveredNames = map (\<lambda>(i, user). formatUserName user) (filter (delivered_to api photos caption) xs),
          failedNames = map (\<lambda>(i, user). formatUserName user) (filter (failed_for api photos caption) xs)\<rparr>
   \<and> (\<exists>us'. refresh_loop botToken calls ys (0, 0, us) =
          (Inr (), (length (filter (\<lambda>(i, user). has_telegramId user \<and> refresh_ok (calls i)) ys),
                    length (filter (\<lambda>(i, user). has_telegramId user \<and> \<not> refresh_ok (calls i)) ys),
                    us')))"
  using refresh_loop_closed [of botToken calls ys 0 0 us]
  by (simp add: deliver_loop_closed)

theorem deliver_loop_independent_witness:
  "deliver_loop second_fails [''a''] ''hello''
       (enumerate 0 [example_user 11 (Some 11) False ''Ann'',
                     example_user 13 (Some 13) False ''Bob'',
                     example_user 16 (Some 16) False ''Cy''])
       \<lparr>successCount = 0, failedCount = 0, deliveredNames = [], failedNames = []\<rparr>
   = Inr \<lparr>successCount = 2, failedCount = 1,
          deliveredNames = [''Ann'', ''Cy''], failedNames = [''Bob'']\<rparr>"
  using deliver_loop_independent [of second_fails "[''a'']" "''hello''"
      "enumerate 0 [example_user 11 (Some 11) False ''Ann'',
                    example_user 13 (Some 13) False ''Bob'',
                    example_user 16 (Some 16) False ''Cy'']", THEN conjunct1]
  by (simp add: delivered_to_def failed_for_def sendBroadcastToChat_def second_fails_def
      example_user_def formatUserName_def trim_def is_space_def)

text \<open>
  The refresh of the users reports three counts of its own: how many users it went
  through, how many it updated, how many failed. The first is the number of users that
  are not bots; the other two add up to the number of those that have an identifier.
\<close>

lemma users_refresh_counts:
  assumes "res_body (fst (post_users_refresh calls env req db)) = Json_counts processed n m"
  shows "processed = length (filter (\<lambda>u. \<not> isBot u) (users db))
     \<and> n + m = length (filter has_telegramId (filter (\<lambda>u. \<not> isBot u) (users db)))"
proof -
  let ?found = "filter (\<lambda>u. \<not> isBot u) (users db)"
  obtain us' where loop: "refresh_loop (env_TELEGRAM_BOT_TOKEN env) calls (enumerate 0 ?found) (0, 0, users db) =
     (Inr (), (0 + length (filter (\<lambda>(i, user). has_telegramId user \<and> refresh_ok (calls i)) (enumerate 0 ?found)),
               0 + length (filter (\<lambda>(i, user). has_telegramId user \<and> \<not> refresh_ok (calls i)) (enumerate 0 ?found)),
               us'))"
    using refresh_loop_closed by blast
  from assms loop have "processed = length ?found"
    and "n = length (filter (\<lambda>(i, user). has_telegramId user \<and> refresh_ok (calls i)) (enumerate 0 ?found))"
    and "m = length (filter (\<lambda>(i, user). has_telegramId user \<and> \<not> refresh_ok (calls i)) (enumerate 0 ?found))"
    by (auto simp: post_users_refresh_def Let_def split: if_splits option.splits)
  then show ?thesis
    using refresh_partition [of calls "enumerate 0 ?found"]
    by (simp add: filter_enumerate_snd)
qed

text \<open>
  Claim C5. Whatever the send handler returns: a summary it sends reports
  \<open>total = success + failure\<close>, and the total is the number of known users that are
  not bots and have a destination (a \<open>chatId\<close> that is present and not 0); users
  without one are not counted. The same holds of the totals of every document the
  handler adds to the broadcast ledger.
\<close>

theorem broadcast_send_totals:
  assumes "broadcast_send api fl now sender drafts db = (res, replies, drafts', db')"
  shows "(\<forall>s f total' dn fn. Summary s f total' dn fn \<in> set replies \<longrightarrow>
            total' = s + f \<and>
            total' = length (filter (\<lambda>u. has_destination u \<and> \<not> isBot u) (users db)))
       \<and> (\<forall>d \<in> set (docs (broadcasts db')) - set (docs (broadcasts db)).
            bc_totalRecipients (payload d) = bc_successCount (payload d) + bc_failedCount (payload d) \<and>
            bc_totalRecipients (payload d)
              = length (filter (\<lambda>u. has_destination u \<and> \<not> isBot u) (users db)))"
proof (cases sender)
  case None
  with assms show ?thesis by (auto simp: broadcast_send_def)
next
  case (Some uid)
  show ?thesis
  proof (cases "drafts uid")
    case None
    with assms Some show ?thesis by (auto simp: broadcast_send_def)
  next
    case (Some draft)
    note draft = this
    show ?thesis
    proof (cases "step draft \<noteq> preview \<or> \<not> truthy (draft_text draft)")
      case True
      with assms \<open>sender = Some uid\<close> draft show ?thesis
        by (auto simp: broadcast_send_def)
    next
      case False
      let ?caption = "case draft_text draft of None \<Rightarrow> [] | Some v \<Rightarrow> v"
      obtain t where loop: "deliver_loop api (photoFileIds draft) ?caption
             (enumerate 0 (find_recipients db))
             \<lparr>successCount = 0, failedCount = 0, deliveredNames = [], failedNames = []\<rparr> = Inr t"
        by (simp add: deliver_loop_closed)
      have tot: "successCount t + failedCount t
          = length (filter (\<lambda>u. has_destination u \<and> \<not> isBot u) (users db))"
        using deliver_loop_tally [OF loop] by (simp add: find_recipients_destinations)
      let ?entry = "\<lparr>bc_adminTelegramId = uid, bc_text = ?caption,
                      bc_photoFileIds = photoFileIds draft,
                      bc_totalRecipients = successCount t + failedCount t,
                      bc_successCount = successCount t,
                      bc_failedCount = failedCount t\<rparr>"
      obtain r c where led: "broadcast_ledger fl now ?entry (broadcasts db) = (r, c)"
        by (cases "broadcast_ledger fl now ?entry (broadcasts db)")
      have sub: "set (docs c) \<subseteq> insert \<lparr>doc_id = next_id (broadcasts db), createdAt = now,
                    payload = ?entry\<rparr> (set (docs (broadcasts db)))"
        using broadcast_ledger_docs_subset [of fl now ?entry "broadcasts db"] led by simp
      from assms \<open>sender = Some uid\<close> draft False loop led
      have db': "db' = db\<lparr>broadcasts := c\<rparr>"
        and replies: "\<And>s f total' dn fn. Summary s f total' dn fn \<in> set replies \<Longrightarrow>
               s = successCount t \<and> f = failedCount t \<and> total' = successCount t + failedCount t"
        by (auto simp: broadcast_send_def Let_def split: sum.splits if_splits)
      have part1: "\<forall>s f total' dn fn. Summary s f total' dn fn \<in> set replies \<longrightarrow>
            total' = s + f \<and>
            total' = length (filter (\<lambda>u. has_destination u \<and> \<not> isBot u) (users db))"
        using replies tot by metis
      have part2: "\<forall>d \<in> set (docs (broadcasts db')) - set (docs (broadcasts db)).
            bc_totalRecipients (payload d) = bc_successCount (payload d) + bc_failedCount (payload d) \<and>
            bc_totalRecipients (payload d)
              = length (filter (\<lambda>u. has_destination u \<and> \<not> isBot u) (users db))"
        using sub tot by (auto simp: db')
      from part1 part2 show ?thesis by blast
    qed
  qed
qed
theorem broadcast_send_totals_witness:
  "Summary 1 1 2 [''Ann''] [''Bob'']
      \<in> set (fst (snd (broadcast_send second_fails no_fault 5000 (Some 1) [1 \<mapsto> preview_draft] five_users_db)))
   \<and> (2::nat) = 1 + 1
   \<and> 2 = length (filter (\<lambda>u. has_destination u \<and> \<not> isBot u) (users five_users_db))"
proof -
  let ?r = "broadcast_send second_fails no_fault 5000 (Some 1) [1 \<mapsto> preview_draft] five_users_db"
  have mem: "Summary 1 1 2 [''Ann''] [''Bob''] \<in> set (fst (snd ?r))"
    by (simp add: broadcast_send_def preview_draft_def truthy_def find_recipients_def
        five_users_db_def empty_db_def example_user_def deliver_one_def sendBroadcastToChat_def
        second_fails_def formatUserName_def trim_def is_space_def broadcast_ledger_def
        no_fault_def create_def countDocuments_def Let_def enumerate_eq_zip)
  have eq: "?r = (fst ?r, fst (snd ?r), fst (snd (snd ?r)), snd (snd (snd ?r)))" by simp
  from broadcast_send_totals [OF eq] mem show ?thesis by blast
qed

section \<open>Properties of the drafts\<close>

lemma on_photo_accept:
  assumes "drafts uid = Some d" "step d = await_photos" "length (photoFileIds d) < 3"
    "album_update uid album u"
  shows "on_photo t u drafts =
    ([], drafts(uid \<mapsto> d\<lparr>photoFileIds := photoFileIds d @ [last (photo u)],
                          mediaGroupId := Some album, mediaGroupTimer := Some (t + 700)\<rparr>))"
  using assms
  by (auto simp: on_photo_def album_update_def MAX_BROADCAST_PHOTOS_def getMediaGroupId_def
      clearTimeout_def truthy_def Let_def)

lemma on_photo_full:
  assumes "drafts uid = Some d" "step d = await_photos" "3 \<le> length (photoFileIds d)"
    "album_update uid album u"
  shows "on_photo t u drafts = ([LimitReached], drafts)"
  using assms
  by (simp add: on_photo_def album_update_def MAX_BROADCAST_PHOTOS_def)

lemma on_photo_ignored:
  assumes "drafts uid = Some d" "step d \<noteq> await_photos" "from_id u = Some uid"
  shows "on_photo t u drafts = ([], drafts)"
  using assms by (simp add: on_photo_def)

lemma timer_fires_album:
  assumes "drafts uid = Some d" "photoFileIds d \<noteq> []"
  shows "timer_fires uid drafts =
     ([AskTextAlbum], drafts(uid \<mapsto> d\<lparr>mediaGroupTimer := None, step := await_text\<rparr>))"
  using assms by (simp add: timer_fires_def Let_def)

lemma settled_no_entry:
  assumes "drafts uid = Some d" "step d = await_text" "mediaGroupTimer d = None"
    "list_all (\<lambda>(t, u). album_update uid album u) updates"
  shows "entered_await_text uid drafts (run uid updates drafts) = []"
  using assms
proof (induction updates)
  case Nil
  then show ?case by (simp add: pending_def)
next
  case (Cons a updates)
  obtain t u where a: "a = (t, u)" by (cases a)
  from Cons.prems a have "from_id u = Some uid" by (simp add: album_update_def)
  with Cons.prems have ig: "on_photo t u drafts = ([], drafts)"
    by (simp add: on_photo_ignored)
  from Cons show ?case by (simp add: a pending_def ig)
qed

lemma full_one_entry:
  assumes "drafts uid = Some d" "step d = await_photos" "length (photoFileIds d) = 3"
    "mediaGroupTimer d = Some deadline"
    "list_all (\<lambda>(t, u). album_update uid album u) updates"
  shows "entered_await_text uid drafts (run uid updates drafts) = [(deadline, photoFileIds d)]"
  using assms
proof (induction updates)
  case Nil
  then have "photoFileIds d \<noteq> []" by auto
  with Nil show ?case by (simp add: pending_def timer_fires_album)
next
  case (Cons a updates)
  obtain t u where a: "a = (t, u)" by (cases a)
  from Cons.prems a have au: "album_update uid album u"
    and rest: "list_all (\<lambda>(t, u). album_update uid album u) updates" by simp_all
  from Cons.prems have ne: "photoFileIds d \<noteq> []" by auto
  show ?case
  proof (cases "deadline \<le> t")
    case True
    let ?d1 = "d\<lparr>mediaGroupTimer := None, step := await_text\<rparr>"
    let ?drafts1 = "drafts(uid \<mapsto> ?d1)"
    have tf: "timer_fires uid drafts = ([AskTextAlbum], ?drafts1)"
      using Cons.prems(1) ne by (rule timer_fires_album)
    have "from_id u = Some uid" using au by (simp add: album_update_def)
    then have ig: "on_photo t u ?drafts1 = ([], ?drafts1)"
      by (intro on_photo_ignored [where d = ?d1]) simp_all
    have "entered_await_text uid ?drafts1 (run uid updates ?drafts1) = []"
      using rest by (intro settled_no_entry [of _ _ ?d1]) simp_all
    with Cons.prems True show ?thesis
      by (simp add: a pending_def tf ig Let_def)
  next
    case False
    have full: "on_photo t u drafts = ([LimitReached], drafts)"
      using Cons.prems au by (simp add: on_photo_full)
    from Cons.IH [OF Cons.prems(1-4) rest] Cons.prems False show ?thesis
      by (simp add: a pending_def full)
  qed
qed

lemma filling_one_entry:
  assumes "drafts uid = Some d" "step d = await_photos" "length (photoFileIds d) < 3"
    "\<forall>deadline. mediaGroupTimer d = Some deadline \<longrightarrow> fst (hd updates) < deadline"
    "updates \<noteq> []"
    "list_all (\<lambda>(t, u). album_update uid album u) updates"
    "within_debounce updates"
  shows "entered_await_text uid drafts (run uid updates drafts) =
     [(fst (last (take (3 - length (photoFileIds d)) updates)) + 700,
       photoFileIds d @ map (\<lambda>(t, u). last (photo u)) (take (3 - length (photoFileIds d)) updates))]"
  using assms
proof (induction updates arbitrary: drafts d)
  case Nil
  then show ?case by simp
next
  case (Cons a updates)
  obtain t u where a: "a = (t, u)" by (cases a)
  from Cons.prems a have au: "album_update uid album u"
    and rest: "list_all (\<lambda>(t, u). album_update uid album u) updates" by simp_all
  let ?d1 = "d\<lparr>photoFileIds := photoFileIds d @ [last (photo u)],
                mediaGroupId := Some album, mediaGroupTimer := Some (t + 700)\<rparr>"
  let ?drafts1 = "drafts(uid \<mapsto> ?d1)"
  have acc: "on_photo t u drafts = ([], ?drafts1)"
    using Cons.prems(1-3) au by (rule on_photo_accept)
  have nofire: "run uid ((t, u) # updates) drafts
      = (t, on_photo t u drafts) # run uid updates (snd (on_photo t u drafts))"
    using Cons.prems(1,4) by (cases "mediaGroupTimer d") (auto simp: pending_def a)
  have here: "entered_await_text uid drafts (run uid (a # updates) drafts)
      = entered_await_text uid ?drafts1 (run uid updates ?drafts1)"
    using Cons.prems(1,2) by (simp add: a nofire acc del: run.simps)
  have k: "3 - length (photoFileIds d) = Suc (2 - length (photoFileIds d))"
    using Cons.prems(3) by simp
  show ?case
  proof (cases updates)
    case Nil
    have "timer_fires uid ?drafts1
        = ([AskTextAlbum], ?drafts1(uid \<mapsto> ?d1\<lparr>mediaGroupTimer := None, step := await_text\<rparr>))"
      by (intro timer_fires_album) simp_all
    then show ?thesis unfolding here using Cons.prems(2)
      by (simp add: Nil pending_def a k)
  next
    case (Cons b updates')
    obtain t2 u2 where b: "b = (t2, u2)" by (cases b)
    from Cons.prems(7) have gap: "t2 < t + 700" and wd: "within_debounce updates"
      by (simp_all add: a Cons b)
    show ?thesis
    proof (cases "length (photoFileIds d) = 2")
      case True
      have "entered_await_text uid ?drafts1 (run uid updates ?drafts1) = [(t + 700, photoFileIds ?d1)]"
        using rest Cons.prems(2) True by (intro full_one_entry [where d = ?d1]) simp_all
      then show ?thesis unfolding here using True by (simp add: a)
    next
      case False
      then have lt: "length (photoFileIds ?d1) < 3" using Cons.prems(3) by simp
      have "entered_await_text uid ?drafts1 (run uid updates ?drafts1) =
         [(fst (last (take (3 - length (photoFileIds ?d1)) updates)) + 700,
           photoFileIds ?d1 @ map (\<lambda>(t, u). last (photo u)) (take (3 - length (photoFileIds ?d1)) updates))]"
        using Cons.prems(2) lt gap rest wd
        by (intro Cons.IH [where d = ?d1]) (simp_all add: Cons b)
      moreover have "take (2 - length (photoFileIds d)) updates \<noteq> []"
        using False Cons.prems(3) by (simp add: Cons)
      ultimately show ?thesis unfolding here
        by (simp add: a k)
    qed
  qed
qed
lemma album_of_four_burst: "album_burst 1 ''album'' album_of_four"
  by (simp add: album_burst_def album_of_four_def album_update_def album_photo_def
      getLargestPhotoFileId_def truthy_def)

lemma album_of_four_entries:
  "entered_await_text 1 [1 \<mapsto> fresh_draft] (run 1 album_of_four [1 \<mapsto> fresh_draft])
     = [(900, [''a'', ''b'', ''c''])]"
proof -
  have "entered_await_text 1 [1 \<mapsto> fresh_draft] (run 1 album_of_four [1 \<mapsto> fresh_draft]) =
     [(fst (last (take (3 - length (photoFileIds fresh_draft)) album_of_four)) + 700,
       photoFileIds fresh_draft
         @ map (\<lambda>(t, u). last (photo u)) (take (3 - length (photoFileIds fresh_draft)) album_of_four))]"
    using album_of_four_burst
    by (intro filling_one_entry [where album = "''album''"])
       (simp_all add: fresh_draft_def album_burst_def)
  then show ?thesis
    by (simp add: fresh_draft_def album_of_four_def album_photo_def)
qed

text \<open>
  Claim C7, as stated, fails on an album of more than three photos: the fourth update is
  rejected before the callback is re-armed, so the draft moves on 700 ms after the third
  update, here at 900, which is less than 700 ms after the last update at 300.
\<close>

theorem album_of_four_counterexample:
  "album_burst 1 ''album'' album_of_four
   \<and> \<not> after_last_update album_of_four
         (entered_await_text 1 [1 \<mapsto> fresh_draft] (run 1 album_of_four [1 \<mapsto> fresh_draft]))"
  using album_of_four_burst
  by (simp add: album_of_four_entries after_last_update_def) (simp add: album_of_four_def)

text \<open>
  Claim C7, amended. Start from the fresh draft of the compose command and let an album
  burst arrive: photo updates of the operator with one album token, each less than
  700 ms after the one before. Then the draft goes from \<open>await_photos\<close> to
  \<open>await_text\<close> exactly once, 700 ms after the last accepted update (the last update
  of the burst when it has at most three, the third otherwise), and at that instant
  \<open>photoFileIds\<close> holds the first three photos of the burst in arrival order.
\<close>

theorem album_burst_enters_await_text_once:
  assumes "drafts uid = Some fresh_draft" and "album_burst uid album updates"
  shows "entered_await_text uid drafts (run uid updates drafts) =
     [(fst (last (take 3 updates)) + 700, map (\<lambda>(t, u). last (photo u)) (take 3 updates))]
   \<and> (length updates \<le> 3 \<longrightarrow>
         after_last_update updates (entered_await_text uid drafts (run uid updates drafts)))"
proof -
  have "entered_await_text uid drafts (run uid updates drafts) =
     [(fst (last (take (3 - length (photoFileIds fresh_draft)) updates)) + 700,
       photoFileIds fresh_draft
         @ map (\<lambda>(t, u). last (photo u)) (take (3 - length (photoFileIds fresh_draft)) updates))]"
    using assms
    by (intro filling_one_entry [where album = album])
       (simp_all add: fresh_draft_def album_burst_def)
  then show ?thesis by (simp add: fresh_draft_def after_last_update_def)
qed

theorem album_burst_enters_await_text_once_witness:
  "album_burst 1 ''album'' album_of_four
   \<and> entered_await_text 1 [1 \<mapsto> fresh_draft] (run 1 album_of_four [1 \<mapsto> fresh_draft])
       = [(900, [''a'', ''b'', ''c''])]"
proof -
  have d: "[1 \<mapsto> fresh_draft] (1::int) = Some fresh_draft" by simp
  from album_burst_enters_await_text_once
         [where drafts = "[1 \<mapsto> fresh_draft]" and uid = 1, OF d album_of_four_burst]
       album_of_four_burst
  show ?thesis by (simp add: album_of_four_def album_photo_def)
qed

text \<open>An album of three photos leaves the settled draft, once its callback has run.\<close>

lemma settled_draft_reached:
  "snd (snd (last (run 1 (take 3 album_of_four) [1 \<mapsto> fresh_draft]))) 1 = Some settled_draft"
  by (simp add: album_of_four_def album_photo_def fresh_draft_def settled_draft_def pending_def
      on_photo_def timer_fires_def getLargestPhotoFileId_def getMediaGroupId_def truthy_def
      MAX_BROADCAST_PHOTOS_def clearTimeout_def Let_def)

text \<open>
  Claim C8, as stated, fails for a draft that has left \<open>await_photos\<close>: after an album
  of three photos has settled, a further photo is dropped without any notice.
\<close>

theorem fourth_photo_counterexample:
  "length (photoFileIds settled_draft) = 3
   \<and> on_photo 1000 (album_photo ''d'') [1 \<mapsto> settled_draft] = ([], [1 \<mapsto> settled_draft])"
  by (simp add: on_photo_def settled_draft_def album_photo_def)

text \<open>
  Claim C8, amended. For a draft that holds three photos, a further photo update of its
  operator leaves the drafts as they are. While the draft is in \<open>await_photos\<close> and the
  update carries a photo identifier, the reply is the limit notice; once the draft has
  left \<open>await_photos\<close> there is no reply.
\<close>

theorem photo_at_limit_rejected:
  assumes "drafts uid = Some draft" and "length (photoFileIds draft) = 3"
    and "from_id u = Some uid"
  shows "snd (on_photo now u drafts) = drafts
     \<and> (step draft = await_photos \<and> truthy (getLargestPhotoFileId u)
          \<longrightarrow> fst (on_photo now u drafts) = [LimitReached])
     \<and> (step draft \<noteq> await_photos \<longrightarrow> fst (on_photo now u drafts) = [])"
  using assms by (simp add: on_photo_def MAX_BROADCAST_PHOTOS_def)

theorem photo_at_limit_rejected_witness:
  "length (photoFileIds full_draft) = 3
   \<and> on_photo 300 (album_photo ''d'') [1 \<mapsto> full_draft] = ([LimitReached], [1 \<mapsto> full_draft])"
proof -
  have d: "[1 \<mapsto> full_draft] (1::int) = Some full_draft" by simp
  have l: "length (photoFileIds full_draft) = 3" by (simp add: full_draft_def)
  have f: "from_id (album_photo ''d'') = Some 1" by (simp add: album_photo_def)
  have s: "step full_draft = await_photos \<and> truthy (getLargestPhotoFileId (album_photo ''d''))"
    by (simp add: full_draft_def album_photo_def getLargestPhotoFileId_def truthy_def)
  from photo_at_limit_rejected
         [where drafts = "[1 \<mapsto> full_draft]" and uid = 1 and now = 300, OF d l f] s l
  show ?thesis
    by (simp add: prod_eq_iff)
qed

section \<open>The two ledgers\<close>

lemma broadcast_ledger_ok:
  assumes "no_faults fl"
  shows "broadcast_ledger fl now entry c =
     (Inr (),
      let c1 = snd (create None now entry c) in
      if length (docs c1) > 500 then
        c1\<lparr>docs := filter (\<lambda>d. doc_id d \<notin> set (map doc_id
                 (take (length (docs c1) - 500) (sort_key createdAt (docs c1))))) (docs c1)\<rparr>
      else c1)"
  using assms take_oldest_nonempty [of "docs c @ [\<lparr>doc_id = next_id c, createdAt = now, payload = entry\<rparr>]"]
  by (simp add: broadcast_ledger_def no_faults_def create_def countDocuments_def
      find_oldest_ids_def deleteMany_def Let_def)

lemma broadcast_ledger_count:
  assumes "no_faults fl"
  shows "length (docs (snd (broadcast_ledger fl now entry c))) \<le> 500"
proof -
  let ?c = "snd (create None now entry c)"
  show ?thesis
  proof (cases "length (docs ?c) > 500")
    case True
    have "length (filter (\<lambda>d. doc_id d \<notin> set (map doc_id
                 (take (length (docs ?c) - 500) (sort_key createdAt (docs ?c))))) (docs ?c))
          \<le> length (docs ?c) - (length (docs ?c) - 500)"
      by (rule prune_length_le)
    also have "\<dots> = 500" using True by simp
    finally show ?thesis using True
      by (simp add: broadcast_ledger_ok [OF assms] Let_def)
  next
    case False
    then show ?thesis by (simp add: broadcast_ledger_ok [OF assms] Let_def)
  qed
qed

text \<open>Deleting by identifier deletes the selected documents and no other, identifiers being unique.\<close>

lemma delete_by_id_is_delete_by_entry:
  assumes "distinct (map doc_id ds)" and "set old \<subseteq> set ds"
  shows "filter (\<lambda>d. doc_id d \<notin> set (map doc_id old)) ds = filter (\<lambda>d. d \<notin> set old) ds"
proof (rule filter_cong [OF refl])
  fix d assume d: "d \<in> set ds"
  have inj: "inj_on doc_id (set ds)" using assms(1) by (simp add: distinct_map)
  show "(doc_id d \<notin> set (map doc_id old)) = (d \<notin> set old)"
    using inj d assms(2) by (auto simp: inj_on_def)
qed

lemma prune_is_spec_append:
  fixes c :: "'p collection"
  assumes "wf_collection c"
  shows "(let c1 = snd (create None now entry c) in
      if length (docs c1) > 500 then
        c1\<lparr>docs := filter (\<lambda>d. doc_id d \<notin> set (map doc_id
                 (take (length (docs c1) - 500) (sort_key createdAt (docs c1))))) (docs c1)\<rparr>
      else c1) = spec_append 500 now entry c"
proof -
  let ?ds = "docs c @ [\<lparr>doc_id = next_id c, createdAt = now, payload = entry\<rparr>]"
  have dist: "distinct (map doc_id ?ds)"
    using assms by (auto simp: wf_collection_def list_all_iff)
  have sub: "set (take (length ?ds - 500) (sort_key createdAt ?ds)) \<subseteq> set ?ds"
    using set_take_subset [of "length ?ds - 500" "sort_key createdAt ?ds"] by simp
  have eq: "filter (\<lambda>d. doc_id d \<notin> set (map doc_id (take (length ?ds - 500) (sort_key createdAt ?ds)))) ?ds
      = filter (\<lambda>d. d \<notin> set (take (length ?ds - 500) (sort_key createdAt ?ds))) ?ds"
    using dist sub by (rule delete_by_id_is_delete_by_entry)
  have nat_eq: "\<And>n::nat. nat (int n - 499) = n - 499" by arith
  show ?thesis
    unfolding spec_append_def create_def Let_def
    using eq by (simp add: nat_eq del: filter_append)
qed

lemma broadcast_send_appends:
  assumes "broadcast_send api fl now sender drafts db = (res, replies, drafts', db')"
    and "Launching \<in> set replies"
  shows "\<exists>entry. db' = db\<lparr>broadcasts := snd (broadcast_ledger fl now entry (broadcasts db))\<rparr>"
proof (cases sender)
  case None
  with assms show ?thesis by (auto simp: broadcast_send_def)
next
  case (Some uid)
  show ?thesis
  proof (cases "drafts uid")
    case None
    with assms Some show ?thesis by (auto simp: broadcast_send_def)
  next
    case (Some draft)
    note draft = this
    show ?thesis
    proof (cases "step draft \<noteq> preview \<or> \<not> truthy (draft_text draft)")
      case True
      with assms \<open>sender = Some uid\<close> draft show ?thesis
        by (auto simp: broadcast_send_def)
    next
      case False
      let ?caption = "case draft_text draft of None \<Rightarrow> [] | Some v \<Rightarrow> v"
      obtain t where loop: "deliver_loop api (photoFileIds draft) ?caption
             (enumerate 0 (find_recipients db))
             \<lparr>successCount = 0, failedCount = 0, deliveredNames = [], failedNames = []\<rparr> = Inr t"
        by (simp add: deliver_loop_closed)
      let ?entry = "\<lparr>bc_adminTelegramId = uid, bc_text = ?caption,
                      bc_photoFileIds = photoFileIds draft,
                      bc_totalRecipients = successCount t + failedCount t,
                      bc_successCount = successCount t,
                      bc_failedCount = failedCount t\<rparr>"
      obtain r c where led: "broadcast_ledger fl now ?entry (broadcasts db) = (r, c)"
        by (cases "broadcast_ledger fl now ?entry (broadcasts db)")
      from assms(1) \<open>sender = Some uid\<close> draft False loop led
      have "db' = db\<lparr>broadcasts := c\<rparr>"
        by (auto simp: broadcast_send_def Let_def split: sum.splits if_splits)
      then have "db' = db\<lparr>broadcasts := snd (broadcast_ledger fl now ?entry (broadcasts db))\<rparr>"
        by (simp add: led)
      then show ?thesis ..
    qed
  qed
qed

lemma broadcast_send_launches:
  assumes "drafts uid = Some draft" and "step draft = preview" and "truthy (draft_text draft)"
  shows "Launching \<in> set (fst (snd (broadcast_send api fl now (Some uid) drafts db)))"
  using assms
  by (auto simp: broadcast_send_def deliver_loop_closed Let_def split: prod.splits sum.splits)

text \<open>
  Claim C4. The error ledger and the broadcast ledger are two collections of the
  database. \<open>logAppError\<close> leaves the broadcast ledger as it is and the send handler
  leaves the error ledger as it is. A send that got as far as the fan-out, with no
  failing ledger call, leaves the broadcast ledger with at most 500 entries. And both
  code paths do the specification's \<open>append\<close> with capacity 500 on a well-formed
  collection.
\<close>

theorem two_ledgers_same_eviction:
  assumes "no_faults fl"
    and "broadcast_send api fl now sender drafts db = (res, replies, drafts', db')"
    and "Launching \<in> set replies"
  shows "length (docs (broadcasts db')) \<le> 500
     \<and> appErrors db' = appErrors db
     \<and> broadcasts (snd (logAppError fl now (Caught err) ctx db)) = broadcasts db
     \<and> (wf_collection (broadcasts db)
          \<longrightarrow> (\<exists>entry. broadcasts db' = spec_append 500 now entry (broadcasts db)))
     \<and> (wf_collection (appErrors db)
          \<longrightarrow> appErrors (snd (logAppError fl now (Caught err) ctx db))
                = spec_append 500 now (build_payload (message_text err) (stack_text err) ctx)
                    (appErrors db))"
proof -
  from broadcast_send_appends [OF assms(2,3)]
  obtain entry where db': "db' = db\<lparr>broadcasts := snd (broadcast_ledger fl now entry (broadcasts db))\<rparr>"
    by blast
  have a: "length (docs (broadcasts db')) \<le> 500"
    using broadcast_ledger_count [OF assms(1)] by (simp add: db')
  have b: "appErrors db' = appErrors db" by (simp add: db')
  have c: "broadcasts (snd (logAppError fl now (Caught err) ctx db)) = broadcasts db"
    by (simp add: logAppError_def error_message_def Let_def split: prod.splits sum.splits)
  have d: "wf_collection (broadcasts db)
      \<longrightarrow> (\<exists>entry. broadcasts db' = spec_append 500 now entry (broadcasts db))"
  proof
    assume "wf_collection (broadcasts db)"
    then have "broadcasts db' = spec_append 500 now entry (broadcasts db)"
      using prune_is_spec_append [of "broadcasts db" now entry]
      by (simp add: db' broadcast_ledger_ok [OF assms(1)])
    then show "\<exists>entry. broadcasts db' = spec_append 500 now entry (broadcasts db)" ..
  qed
  have e: "wf_collection (appErrors db)
      \<longrightarrow> appErrors (snd (logAppError fl now (Caught err) ctx db))
            = spec_append 500 now (build_payload (message_text err) (stack_text err) ctx)
                (appErrors db)"
  proof
    assume "wf_collection (appErrors db)"
    then show "appErrors (snd (logAppError fl now (Caught err) ctx db))
            = spec_append 500 now (build_payload (message_text err) (stack_text err) ctx)
                (appErrors db)"
      using prune_is_spec_append [of "appErrors db" now
          "build_payload (message_text err) (stack_text err) ctx"]
      by (simp add: logAppError_def error_message_def error_stack_def logAppError_try_ok [OF assms(1)] Let_def)
  qed
  from a b c d e show ?thesis by (intro conjI)
qed

theorem two_ledgers_same_eviction_witness:
  "no_faults no_fault
   \<and> Launching \<in> set (fst (snd (broadcast_send second_fails no_fault 5000 (Some 1)
                                   [1 \<mapsto> preview_draft] full_broadcasts_db)))
   \<and> length (docs (broadcasts (snd (snd (snd (broadcast_send second_fails no_fault 5000 (Some 1)
                                   [1 \<mapsto> preview_draft] full_broadcasts_db)))))) \<le> 500
   \<and> appErrors (snd (snd (snd (broadcast_send second_fails no_fault 5000 (Some 1)
                                   [1 \<mapsto> preview_draft] full_broadcasts_db))))
       = appErrors full_broadcasts_db"
proof -
  let ?r = "broadcast_send second_fails no_fault 5000 (Some 1) [1 \<mapsto> preview_draft] full_broadcasts_db"
  have nf: "no_faults no_fault" by (simp add: no_faults_def no_fault_def)
  have eq: "?r = (fst ?r, fst (snd ?r), fst (snd (snd ?r)), snd (snd (snd ?r)))" by simp
  have d: "[1 \<mapsto> preview_draft] (1::int) = Some preview_draft" by simp
  have mem: "Launching \<in> set (fst (snd ?r))"
    using d by (rule broadcast_send_launches) (simp_all add: preview_draft_def truthy_def)
  from two_ledgers_same_eviction [OF nf eq mem] nf mem show ?thesis by blast
qed

section \<open>Properties of the file views\<close>

lemma miniapp_file_view_403:
  "(res_status (fst (miniapp_file_view view coll env req db)) = 403)
     = (env_order_fault env = None \<and>
        (\<exists>t ord. resolveTelegramUserId env req = Some t \<and> t \<noteq> 0 \<and>
                  find (\<lambda>ord. order_id ord = params_id req) (coll db) = Some ord \<and>
                  telegramUserId ord \<noteq> t))"
  by (cases "resolveTelegramUserId env req")
     (auto simp: miniapp_file_view_def findById_def truthy_id_def Let_def split: option.splits)

lemma miniapp_file_view_unresolved:
  assumes "resolveTelegramUserId env req = None" and "env_order_fault env = None"
    and "find (\<lambda>ord. order_id ord = params_id req) (coll db) = Some ord"
  shows "miniapp_file_view view coll env req db =
     (\<lparr>res_status = (if view_error (buildTrainingFileViewData env (Some ord)) \<noteq> NoError then 404 else 200),
       res_body = Render view None (buildTrainingFileViewData env (Some ord))\<rparr>, db)"
  using assms by (simp add: miniapp_file_view_def findById_def truthy_id_def Let_def)

text \<open>
  Claim C9. Each of the two file views answers 403 exactly when the order query
  succeeds, a telegram identifier resolves from the request (and is not 0), the order
  exists and its \<open>telegramUserId\<close> is another one. When no identifier resolves and the
  order exists, there is no ownership check: the answer is the view data built from that
  order, whoever owns it, with status 200, or 404 when the view data carries an error.
\<close>

theorem file_view_ownership:
  "(res_status (fst (get_training_file env req db)) = 403
      \<longleftrightarrow> env_order_fault env = None \<and>
          (\<exists>t ord. resolveTelegramUserId env req = Some t \<and> t \<noteq> 0 \<and>
                    find (\<lambda>ord. order_id ord = params_id req) (orders db) = Some ord \<and>
                    telegramUserId ord \<noteq> t))
   \<and> (res_status (fst (get_nutrition_file env req db)) = 403
      \<longleftrightarrow> env_order_fault env = None \<and>
          (\<exists>t ord. resolveTelegramUserId env req = Some t \<and> t \<noteq> 0 \<and>
                    find (\<lambda>ord. order_id ord = params_id req) (nutritionOrders db) = Some ord \<and>
                    telegramUserId ord \<noteq> t))
   \<and> (resolveTelegramUserId env req = None \<and> env_order_fault env = None \<and>
        find (\<lambda>ord. order_id ord = params_id req) (orders db) = Some training
      \<longrightarrow> get_training_file env req db =
            (\<lparr>res_status = (if view_error (buildTrainingFileViewData env (Some training)) \<noteq> NoError
                              then 404 else 200),
              res_body = Render ''miniapp/training-file'' None
                           (buildTrainingFileViewData env (Some training))\<rparr>, db))
   \<and> (resolveTelegramUserId env req = None \<and> env_order_fault env = None \<and>
        find (\<lambda>ord. order_id ord = params_id req) (nutritionOrders db) = Some nutrition
      \<longrightarrow> get_nutrition_file env req db =
            (\<lparr>res_status = (if view_error (buildTrainingFileViewData env (Some nutrition)) \<noteq> NoError
                              then 404 else 200),
              res_body = Render ''miniapp/nutrition-file'' None
                           (buildTrainingFileViewData env (Some nutrition))\<rparr>, db))"
  unfolding get_training_file_def get_nutrition_file_def
  using miniapp_file_view_403 [of "''miniapp/training-file''" orders env req db]
    miniapp_file_view_403 [of "''miniapp/nutrition-file''" nutritionOrders env req db]
    miniapp_file_view_unresolved [of env req orders db training "''miniapp/training-file''"]
    miniapp_file_view_unresolved [of env req nutritionOrders db nutrition "''miniapp/nutrition-file''"]
  by blast

theorem file_view_ownership_witness:
  "resolveTelegramUserId example_env (plain_request ''65a1b2c3d4e5f60718293a4b'') = None
   \<and> res_status (fst (get_training_file example_env (plain_request ''65a1b2c3d4e5f60718293a4b'') one_order_db)) = 200
   \<and> resolveTelegramUserId example_env ((plain_request ''65a1b2c3d4e5f60718293a4b'')\<lparr>header_telegramId := Some ''8''\<rparr>) = Some 8
   \<and> res_status (fst (get_training_file example_env
                         ((plain_request ''65a1b2c3d4e5f60718293a4b'')\<lparr>header_telegramId := Some ''8''\<rparr>) one_order_db)) = 403"
proof -
  let ?anon = "plain_request ''65a1b2c3d4e5f60718293a4b''"
  let ?stranger = "(plain_request ''65a1b2c3d4e5f60718293a4b'')\<lparr>header_telegramId := Some ''8''\<rparr>"
  let ?ord = "\<lparr>order_id = ''65a1b2c3d4e5f60718293a4b'', telegramUserId = 7, order_adminTelegramId = None,
       order_status = ''pending'', decisionAt = None, completedAt = None, trainingDate = None,
       attachmentUrl = Some ''/uploads/training-0.xlsx'', attachmentFileName = Some ''old.xlsx'',
       attachmentMimeType = None\<rparr>"
  have r1: "resolveTelegramUserId example_env ?anon = None"
    by (simp add: resolveTelegramUserId_def truthy_id_def nullish_def parseTelegramId_def
        header_value_def plain_request_def)
  have r2: "resolveTelegramUserId example_env ?stranger = Some 8"
    by (simp add: resolveTelegramUserId_def truthy_id_def nullish_def parseTelegramId_def
        header_value_def plain_request_def example_env_def trim_def is_space_def)
  have nf: "env_order_fault example_env = None" by (simp add: example_env_def)
  have f1: "find (\<lambda>ord. order_id ord = params_id ?anon) (orders one_order_db) = Some ?ord"
    by (simp add: one_order_db_def empty_db_def plain_request_def)
  have f2: "find (\<lambda>ord. order_id ord = params_id ?stranger) (orders one_order_db) = Some ?ord"
    by (simp add: one_order_db_def empty_db_def plain_request_def)
  have ok: "view_error (buildTrainingFileViewData example_env (Some ?ord)) = NoError"
    by (simp add: buildTrainingFileViewData_def example_env_def Let_def)
  have "res_status (fst (get_training_file example_env ?anon one_order_db)) = 200"
    using file_view_ownership [of example_env ?anon one_order_db ?ord] r1 nf f1 ok by simp
  moreover have "res_status (fst (get_training_file example_env ?stranger one_order_db)) = 403"
    using file_view_ownership [of example_env ?stranger one_order_db] r2 nf f2 by simp
  ultimately show ?thesis using r1 r2 by simp
qed
section \<open>Properties of the status transitions\<close>

lemma findOneAndUpdate_no_match:
  "find flt os = None \<Longrightarrow> findOneAndUpdate flt upd os = (None, os)"
  by (induction os) (auto split: if_splits)

lemma findOneAndUpdate_guarded:
  "list_all2 (\<lambda>b a. a = b \<or> flt b) os (snd (findOneAndUpdate flt upd os))"
  by (induction os) (auto split: prod.splits simp: list_all2_same)

lemma findOneAndUpdate_match:
  "find flt os = Some b \<Longrightarrow>
     fst (findOneAndUpdate flt upd os) = Some (upd b)
     \<and> (b, upd b) \<in> set (zip os (snd (findOneAndUpdate flt upd os)))"
  by (induction os) (auto split: if_splits prod.splits)

lemma only_guarded_refl: "only_guarded_change ident guard os os"
  by (simp add: only_guarded_change_def list_all2_same)

lemma documents_store:
  "documents m (store_documents m coll db) = coll"
  "documents (other_model m) (store_documents m coll db) = documents (other_model m) db"
  "store_documents m (documents m db) db = db"
  "documents m (db\<lparr>users := us\<rparr>) = documents m db"
  "documents m (db\<lparr>appErrors := c\<rparr>) = documents m db"
  by (cases m; simp add: documents_def store_documents_def other_model_def)+

lemma guarded_transition_fault:
  "env_order_fault env = Some e \<Longrightarrow> guarded_transition env req m guard upd nf us an db = (Inl e, db)"
  by (simp add: guarded_transition_def)

lemma guarded_transition_no_match:
  assumes "env_order_fault env = None"
    and "matching_order (params_id req) guard (documents m db) = None"
  shows "guarded_transition env req m guard upd nf us an db
           = (Inr \<lparr>res_status = 404, res_body = Json_message nf\<rparr>, db)"
  using assms findOneAndUpdate_no_match [OF assms(2) [unfolded matching_order_def], of upd]
  by (simp add: guarded_transition_def documents_store)

lemma guarded_transition_match:
  assumes "env_order_fault env = None"
    and "matching_order (params_id req) guard (documents m db) = Some b"
    and "guarded_transition env req m guard upd nf us an db = (r, db1)"
  shows "(b, upd b) \<in> set (zip (documents m db) (documents m db1))"
    and "r = (case env_user_fault env of Some e \<Rightarrow> Inl e
              | None \<Rightarrow> Inr \<lparr>res_status = 200, res_body = Json_status an\<rparr>)"
  using assms(1,3) findOneAndUpdate_match [OF assms(2) [unfolded matching_order_def], of upd]
  by (auto simp: guarded_transition_def documents_store split: option.splits prod.splits)

lemma guarded_transition_documents:
  assumes "guarded_transition env req m guard upd nf us an db = (r, db1)"
  shows "only_guarded_change (params_id req) guard (documents m db) (documents m db1)"
    and "documents (other_model m) db1 = documents (other_model m) db"
  using assms findOneAndUpdate_guarded
    [of "\<lambda>ord. order_id ord = params_id req \<and> order_status ord = guard" "documents m db" upd]
  by (auto simp: guarded_transition_def only_guarded_change_def list_all2_same documents_store
      split: option.splits prod.splits)

lemma answer_failure_spec:
  "res_status (fst (answer_failure env req msg e db)) = 500"
  "documents m (snd (answer_failure env req msg e db)) = documents m db"
  by (cases m; simp add: answer_failure_def documents_def logAppError_def error_message_def Let_def
      split: prod.splits sum.splits)+


lemmas try_defs = accept_try_def nutrition_accept_try_def decline_try_def nutrition_decline_try_def
  complete_try_def nutrition_complete_try_def
lemmas post_defs = post_accept_def post_nutrition_accept_def post_decline_def post_nutrition_decline_def
  post_complete_def post_nutrition_complete_def
lemmas reading_defs = admin_resolved_def attachment_of_def attachment_is_excel_def store_attachment_def
  attachment_stored_def admitted_def thrown_before_update_def bad_request_def guard_status_def
  new_status_def not_found_message_def

lemma handler_no_admin:
  "\<not> admin_resolved env req \<Longrightarrow>
     handler m t env req db = (bad_request ''adminTelegramId is required'', db)"
  by (cases m; cases t; simp add: handler_def post_defs try_defs reading_defs)

lemma handler_no_attachment:
  "admin_resolved env req \<Longrightarrow> attachment_of req = [] \<Longrightarrow>
     handler m Accept env req db = (bad_request ''Excel file is required'', db)"
  by (cases m; simp add: handler_def post_defs try_defs reading_defs)

lemma handler_not_excel:
  "admin_resolved env req \<Longrightarrow> attachment_of req \<noteq> [] \<Longrightarrow> \<not> attachment_is_excel env req \<Longrightarrow>
     handler m Accept env req db = (bad_request ''Only .xls or .xlsx files are allowed'', db)"
  by (cases m; simp add: handler_def post_defs try_defs reading_defs)

lemma handler_thrown:
  assumes "thrown_before_update t env req"
  shows "res_status (fst (handler m t env req db)) = 500"
    and "documents m (snd (handler m t env req db)) = documents m db"
  using assms
  by (cases m; cases t;
      auto simp: handler_def post_defs try_defs reading_defs Let_def guarded_transition_fault
        answer_failure_spec isl_def split: sum.splits)+

lemma handler_no_match:
  assumes "admitted t env req"
    and "matching_order (params_id req) (guard_status t) (documents m db) = None"
  shows "handler m t env req db
           = (\<lparr>res_status = 404, res_body = Json_message (not_found_message m t)\<rparr>, db)"
  using assms
  by (cases m; cases t;
      auto simp: handler_def post_defs try_defs reading_defs Let_def guarded_transition_no_match
        isl_def split: sum.splits)


lemma handler_body:
  obtains body msg where
    "(m, t, body) \<in> {(OrderModel, Accept, accept_try env req db),
                       (OrderModel, Decline, decline_try env req db),
                       (OrderModel, Complete, complete_try env req db),
                       (NutritionOrderModel, Accept, nutrition_accept_try env req db),
                       (NutritionOrderModel, Decline, nutrition_decline_try env req db),
                       (NutritionOrderModel, Complete, nutrition_complete_try env req db)}"
    and "handler m t env req db
           = (case body of (Inr response, db1) \<Rightarrow> (response, db1)
              | (Inl error, db1) \<Rightarrow> answer_failure env req (msg error) error db1)"
proof (cases m; cases t)
  assume "m = OrderModel" "t = Accept"
  then show ?thesis
    using that [of "accept_try env req db" accept_failure_message]
    by (simp add: handler_def post_accept_def)
next
  assume "m = OrderModel" "t = Decline"
  then show ?thesis
    using that [of "decline_try env req db" "\<lambda>e. ''Failed to decline request''"]
    by (simp add: handler_def post_decline_def)
next
  assume "m = OrderModel" "t = Complete"
  then show ?thesis
    using that [of "complete_try env req db" "\<lambda>e. ''Failed to complete training''"]
    by (simp add: handler_def post_complete_def)
next
  assume "m = NutritionOrderModel" "t = Accept"
  then show ?thesis
    using that [of "nutrition_accept_try env req db" accept_failure_message]
    by (simp add: handler_def post_nutrition_accept_def)
next
  assume "m = NutritionOrderModel" "t = Decline"
  then show ?thesis
    using that [of "nutrition_decline_try env req db" "\<lambda>e. ''Failed to decline request''"]
    by (simp add: handler_def post_nutrition_decline_def)
next
  assume "m = NutritionOrderModel" "t = Complete"
  then show ?thesis
    using that [of "nutrition_complete_try env req db" "\<lambda>e. ''Failed to complete nutrition plan''"]
    by (simp add: handler_def post_nutrition_complete_def)
qed

lemma try_documents:
  assumes "(m, t, body) \<in> {(OrderModel, Accept, accept_try env req db),
                            (OrderModel, Decline, decline_try env req db),
                            (OrderModel, Complete, complete_try env req db),
                            (NutritionOrderModel, Accept, nutrition_accept_try env req db),
                            (NutritionOrderModel, Decline, nutrition_decline_try env req db),
                            (NutritionOrderModel, Complete, nutrition_complete_try env req db)}"
  shows "only_guarded_change (params_id req) (guard_status t) (documents m db) (documents m (snd body))
         \<and> documents (other_model m) (snd body) = documents (other_model m) db"
proof -
  have tail: "only_guarded_change (params_id req) guard (documents m db)
        (documents m (snd (guarded_transition env req m guard upd nf us an db)))
      \<and> documents (other_model m) (snd (guarded_transition env req m guard upd nf us an db))
          = documents (other_model m) db" for guard upd nf us an m
    using guarded_transition_documents
      [of env req m guard upd nf us an db "fst (guarded_transition env req m guard upd nf us an db)"
          "snd (guarded_transition env req m guard upd nf us an db)"]
    by simp
  from assms show ?thesis
    by (auto simp: try_defs Let_def guard_status_def only_guarded_refl tail split: sum.splits)
qed

lemma handler_guarded:
  "only_guarded_change (params_id req) (guard_status t) (documents m db)
     (documents m (snd (handler m t env req db)))
   \<and> documents (other_model m) (snd (handler m t env req db)) = documents (other_model m) db"
proof -
  obtain body msg where b: "(m, t, body) \<in> {(OrderModel, Accept, accept_try env req db),
                       (OrderModel, Decline, decline_try env req db),
                       (OrderModel, Complete, complete_try env req db),
                       (NutritionOrderModel, Accept, nutrition_accept_try env req db),
                       (NutritionOrderModel, Decline, nutrition_decline_try env req db),
                       (NutritionOrderModel, Complete, nutrition_complete_try env req db)}"
    and h: "handler m t env req db
           = (case body of (Inr response, db1) \<Rightarrow> (response, db1)
              | (Inl error, db1) \<Rightarrow> answer_failure env req (msg error) error db1)"
    by (rule handler_body)
  from try_documents [OF b] show ?thesis
    unfolding h by (cases body; cases "fst body") (auto simp: answer_failure_spec)
qed

lemma try_admitted:
  assumes "(m, t, body) \<in> {(OrderModel, Accept, accept_try env req db),
                            (OrderModel, Decline, decline_try env req db),
                            (OrderModel, Complete, complete_try env req db),
                            (NutritionOrderModel, Accept, nutrition_accept_try env req db),
                            (NutritionOrderModel, Decline, nutrition_decline_try env req db),
                            (NutritionOrderModel, Complete, nutrition_complete_try env req db)}"
    and "admitted t env req"
  shows "\<exists>upd nf us.
           body = guarded_transition env req m (guard_status t) upd nf us (new_status t) db
           \<and> (\<forall>ord. order_status (upd ord) = new_status t \<and> order_id (upd ord) = order_id ord
                      \<and> telegramUserId (upd ord) = telegramUserId ord)"
proof -
  from assms(1) consider
      (ta) "m = OrderModel" "t = Accept" "body = accept_try env req db"
    | (td) "m = OrderModel" "t = Decline" "body = decline_try env req db"
    | (tc) "m = OrderModel" "t = Complete" "body = complete_try env req db"
    | (na) "m = NutritionOrderModel" "t = Accept" "body = nutrition_accept_try env req db"
    | (nd) "m = NutritionOrderModel" "t = Decline" "body = nutrition_decline_try env req db"
    | (nc) "m = NutritionOrderModel" "t = Complete" "body = nutrition_complete_try env req db"
    by auto
  then show ?thesis
  proof cases
    case ta
    from assms(2) obtain saved where "store_attachment env req = Inr saved"
      by (cases "store_attachment env req") (simp_all add: ta admitted_def attachment_stored_def)
    with assms(2) show ?thesis
      apply (simp add: ta accept_try_def reading_defs Let_def)
      apply (intro exI conjI, rule refl, simp)
      done
  next
    case td
    with assms(2) show ?thesis
      apply (simp add: decline_try_def reading_defs Let_def)
      apply (intro exI conjI, rule refl, simp)
      done
  next
    case tc
    with assms(2) show ?thesis
      apply (simp add: complete_try_def reading_defs Let_def)
      apply (intro exI conjI, rule refl, simp)
      done
  next
    case na
    from assms(2) obtain saved where "store_attachment env req = Inr saved"
      by (cases "store_attachment env req") (simp_all add: na admitted_def attachment_stored_def)
    with assms(2) show ?thesis
      apply (simp add: na nutrition_accept_try_def reading_defs Let_def)
      apply (intro exI conjI, rule refl, simp)
      done
  next
    case nd
    with assms(2) show ?thesis
      apply (simp add: nutrition_decline_try_def reading_defs Let_def)
      apply (intro exI conjI, rule refl, simp)
      done
  next
    case nc
    with assms(2) show ?thesis
      apply (simp add: nutrition_complete_try_def reading_defs Let_def)
      apply (intro exI conjI, rule refl, simp)
      done
  qed
qed

lemma try_match:
  assumes "(m, t, body) \<in> {(OrderModel, Accept, accept_try env req db),
                            (OrderModel, Decline, decline_try env req db),
                            (OrderModel, Complete, complete_try env req db),
                            (NutritionOrderModel, Accept, nutrition_accept_try env req db),
                            (NutritionOrderModel, Decline, nutrition_decline_try env req db),
                            (NutritionOrderModel, Complete, nutrition_complete_try env req db)}"
    and "admitted t env req"
    and "matching_order (params_id req) (guard_status t) (documents m db) = Some b"
  shows "(\<exists>a. (b, a) \<in> set (zip (documents m db) (documents m (snd body)))
             \<and> order_status a = new_status t \<and> order_id a = order_id b
             \<and> telegramUserId a = telegramUserId b)
         \<and> fst body = (case env_user_fault env of
                         Some e \<Rightarrow> Inl e
                       | None \<Rightarrow> Inr \<lparr>res_status = 200, res_body = Json_status (new_status t)\<rparr>)"
proof -
  from try_admitted [OF assms(1,2)] obtain upd nf us where
    body: "body = guarded_transition env req m (guard_status t) upd nf us (new_status t) db"
    and upd: "order_status (upd b) = new_status t" "order_id (upd b) = order_id b"
      "telegramUserId (upd b) = telegramUserId b"
    by blast
  from assms(2) have nofault: "env_order_fault env = None" by (simp add: admitted_def)
  have run: "guarded_transition env req m (guard_status t) upd nf us (new_status t) db
               = (fst body, snd body)"
    by (simp add: body)
  from guarded_transition_match [OF nofault assms(3) run] upd show ?thesis by blast
qed

lemma handler_match:
  assumes "admitted t env req"
    and "matching_order (params_id req) (guard_status t) (documents m db) = Some b"
  shows "(\<exists>a. (b, a) \<in> set (zip (documents m db) (documents m (snd (handler m t env req db))))
             \<and> order_status a = new_status t \<and> order_id a = order_id b
             \<and> telegramUserId a = telegramUserId b)
         \<and> res_status (fst (handler m t env req db)) = (if env_user_fault env = None then 200 else 500)"
proof -
  obtain body msg where b: "(m, t, body) \<in> {(OrderModel, Accept, accept_try env req db),
                       (OrderModel, Decline, decline_try env req db),
                       (OrderModel, Complete, complete_try env req db),
                       (NutritionOrderModel, Accept, nutrition_accept_try env req db),
                       (NutritionOrderModel, Decline, nutrition_decline_try env req db),
                       (NutritionOrderModel, Complete, nutrition_complete_try env req db)}"
    and h: "handler m t env req db
           = (case body of (Inr response, db1) \<Rightarrow> (response, db1)
              | (Inl error, db1) \<Rightarrow> answer_failure env req (msg error) error db1)"
    by (rule handler_body)
  from try_match [OF b assms] show ?thesis
    unfolding h
    by (cases body; cases "fst body"; cases "env_user_fault env")
       (auto simp: answer_failure_spec)
qed

lemma only_guarded_no_match:
  assumes "only_guarded_change ident guard before after"
    and "matching_order ident guard before = None"
  shows "after = before"
proof -
  from assms(2) have none: "\<forall>b \<in> set before. \<not> (order_id b = ident \<and> order_status b = guard)"
    by (simp add: matching_order_def find_None_iff)
  from assms(1) have l: "list_all2 (\<lambda>b a. a = b \<or> (order_id b = ident \<and> order_status b = guard)) before after"
    by (simp add: only_guarded_change_def)
  from l none show ?thesis
    by (induction before after rule: list_all2_induct) auto
qed

lemma request_cases:
  "\<not> admin_resolved env req
   \<or> (t = Accept \<and> admin_resolved env req \<and> attachment_of req = [])
   \<or> (t = Accept \<and> admin_resolved env req \<and> attachment_of req \<noteq> [] \<and> \<not> attachment_is_excel env req)
   \<or> thrown_before_update t env req
   \<or> admitted t env req"
  by (auto simp: admitted_def thrown_before_update_def attachment_stored_def)

text \<open>
  Claim C10, as stated, fails for a request that does not get as far as the update: with
  no admin identifier in the request and none configured, the decline handler answers
  400, not 404, although no order matches.
\<close>

theorem decline_without_admin_counterexample:
  "matching_order (params_id (plain_request ''65a1b2c3d4e5f60718293a4c'')) ''pending''
       (orders one_order_db) = None
   \<and> fst (post_decline example_env (plain_request ''65a1b2c3d4e5f60718293a4c'') one_order_db)
       = \<lparr>res_status = 400, res_body = Json_message ''adminTelegramId is required''\<rparr>"
  by (simp add: matching_order_def plain_request_def one_order_db_def empty_db_def post_decline_def
      decline_try_def resolveAdminTelegramId_def truthy_id_def nullish_def parseTelegramId_def
      header_value_def example_env_def)

text \<open>
  Claim C10, amended. Take any of the six transition handlers (accept, decline and
  complete, for training orders and for nutrition orders), any request and any database,
  and let the handler answer \<open>response\<close> and leave the database \<open>db1\<close>.

  \<^item> Of the collection of the handler, every document is as it was, except possibly a
    document that had the identifier asked for and the guard status: \<open>pending\<close> for accept
    and decline, \<open>accepted\<close> for complete. The other collection is as it was.
  \<^item> A request is rejected before the update, with the database as it was: with 400 when
    no admin identifier resolves; for accept also with 400 when no attachment is given, and
    with 400 when the attachment is not an Excel file.
  \<^item> When storing the attachment (accept) or the query throws, the answer is 500 and no
    order document is modified.
  \<^item> When no order has the identifier and the guard status, no order document is
    modified; and a request that got as far as the update is answered 404, with the
    database as it was.
  \<^item> When an order has the identifier and the guard status and the request got as far as
    the update, the first such order gets the new status (the same identifier and user);
    the answer is 200, or 500 when the update of the user throws.
  \<^item> Every request is in one of these cases.
\<close>

theorem status_transitions_guarded:
  assumes "handler m t env req db = (response, db1)"
  shows
    "only_guarded_change (params_id req) (guard_status t) (documents m db) (documents m db1)
     \<and> documents (other_model m) db1 = documents (other_model m) db
     \<and> (\<not> admin_resolved env req \<longrightarrow>
           response = bad_request ''adminTelegramId is required'' \<and> db1 = db)
     \<and> (t = Accept \<and> admin_resolved env req \<and> attachment_of req = [] \<longrightarrow>
           response = bad_request ''Excel file is required'' \<and> db1 = db)
     \<and> (t = Accept \<and> admin_resolved env req \<and> attachment_of req \<noteq> []
          \<and> \<not> attachment_is_excel env req \<longrightarrow>
           response = bad_request ''Only .xls or .xlsx files are allowed'' \<and> db1 = db)
     \<and> (thrown_before_update t env req \<longrightarrow>
           res_status response = 500 \<and> documents m db1 = documents m db)
     \<and> (matching_order (params_id req) (guard_status t) (documents m db) = None \<longrightarrow>
           documents m db1 = documents m db)
     \<and> (admitted t env req
          \<and> matching_order (params_id req) (guard_status t) (documents m db) = None \<longrightarrow>
           response = \<lparr>res_status = 404, res_body = Json_message (not_found_message m t)\<rparr>
           \<and> db1 = db)
     \<and> (\<forall>b. admitted t env req
              \<and> matching_order (params_id req) (guard_status t) (documents m db) = Some b \<longrightarrow>
           (\<exists>a. (b, a) \<in> set (zip (documents m db) (documents m db1))
                \<and> order_status a = new_status t \<and> order_id a = order_id b
                \<and> telegramUserId a = telegramUserId b)
           \<and> res_status response = (if env_user_fault env = None then 200 else 500))
     \<and> (\<not> admin_resolved env req
          \<or> (t = Accept \<and> admin_resolved env req \<and> attachment_of req = [])
          \<or> (t = Accept \<and> admin_resolved env req \<and> attachment_of req \<noteq> []
              \<and> \<not> attachment_is_excel env req)
          \<or> thrown_before_update t env req
          \<or> admitted t env req)"
proof -
  from assms have r: "response = fst (handler m t env req db)"
    and d: "db1 = snd (handler m t env req db)"
    by simp_all
  have guarded:
    "only_guarded_change (params_id req) (guard_status t) (documents m db) (documents m db1)"
    and other: "documents (other_model m) db1 = documents (other_model m) db"
    using handler_guarded [of req t m db env] by (simp_all add: d)
  have no_admin: "response = bad_request ''adminTelegramId is required'' \<and> db1 = db"
    if "\<not> admin_resolved env req"
    using handler_no_admin [OF that, of m t db] by (simp add: r d)
  have no_attachment: "response = bad_request ''Excel file is required'' \<and> db1 = db"
    if "t = Accept \<and> admin_resolved env req \<and> attachment_of req = []"
    using that handler_no_attachment [of env req m db] by (simp add: r d)
  have not_excel: "response = bad_request ''Only .xls or .xlsx files are allowed'' \<and> db1 = db"
    if "t = Accept \<and> admin_resolved env req \<and> attachment_of req \<noteq> []
          \<and> \<not> attachment_is_excel env req"
    using that handler_not_excel [of env req m db] by (simp add: r d)
  have thrown: "res_status response = 500 \<and> documents m db1 = documents m db"
    if "thrown_before_update t env req"
    using handler_thrown [OF that, of m db] by (simp add: r d)
  have unchanged: "documents m db1 = documents m db"
    if "matching_order (params_id req) (guard_status t) (documents m db) = None"
    using only_guarded_no_match [OF guarded that] .
  have not_found:
    "response = \<lparr>res_status = 404, res_body = Json_message (not_found_message m t)\<rparr> \<and> db1 = db"
    if "admitted t env req
          \<and> matching_order (params_id req) (guard_status t) (documents m db) = None"
    using that handler_no_match [of t env req m db] by (simp add: r d)
  have updated:
    "(\<exists>a. (b, a) \<in> set (zip (documents m db) (documents m db1))
          \<and> order_status a = new_status t \<and> order_id a = order_id b
          \<and> telegramUserId a = telegramUserId b)
     \<and> res_status response = (if env_user_fault env = None then 200 else 500)"
    if "admitted t env req
          \<and> matching_order (params_id req) (guard_status t) (documents m db) = Some b" for b
    using that handler_match [of t env req m db b] by (simp add: r d)
  from guarded other no_admin no_attachment not_excel thrown unchanged not_found updated
    request_cases [of env req t]
  show ?thesis by blast
qed

theorem status_transitions_guarded_witness:
  "admitted Decline example_env (admin_request ''65a1b2c3d4e5f60718293a4c'')
   \<and> matching_order ''65a1b2c3d4e5f60718293a4c'' ''pending'' (orders one_order_db) = None
   \<and> handler OrderModel Decline example_env (admin_request ''65a1b2c3d4e5f60718293a4c'') one_order_db
       = (\<lparr>res_status = 404, res_body = Json_message ''Request not found''\<rparr>, one_order_db)
   \<and> admitted Decline example_env (admin_request ''65a1b2c3d4e5f60718293a4b'')
   \<and> matching_order ''65a1b2c3d4e5f60718293a4b'' ''pending'' (orders one_order_db) \<noteq> None
   \<and> res_status (fst (handler OrderModel Decline example_env
                         (admin_request ''65a1b2c3d4e5f60718293a4b'') one_order_db)) = 200
   \<and> (\<exists>a. a \<in> set (orders (snd (handler OrderModel Decline example_env
                                     (admin_request ''65a1b2c3d4e5f60718293a4b'') one_order_db)))
          \<and> order_id a = ''65a1b2c3d4e5f60718293a4b'' \<and> order_status a = ''declined'')"
proof -
  let ?u = "admin_request ''65a1b2c3d4e5f60718293a4c''"
  let ?p = "admin_request ''65a1b2c3d4e5f60718293a4b''"
  let ?ord = "\<lparr>order_id = ''65a1b2c3d4e5f60718293a4b'', telegramUserId = 7, order_adminTelegramId = None,
       order_status = ''pending'', decisionAt = None, completedAt = None, trainingDate = None,
       attachmentUrl = Some ''/uploads/training-0.xlsx'', attachmentFileName = Some ''old.xlsx'',
       attachmentMimeType = None\<rparr>"
  have adm: "admitted Decline example_env (admin_request ident)" for ident
    by (simp add: admitted_def admin_resolved_def attachment_stored_def resolveAdminTelegramId_def
        truthy_id_def nullish_def parseTelegramId_def admin_request_def plain_request_def
        example_env_def)
  have docs: "documents OrderModel one_order_db = [?ord]"
    by (simp add: documents_def one_order_db_def empty_db_def)
  have none: "matching_order (params_id ?u) (guard_status Decline) (documents OrderModel one_order_db) = None"
    by (simp add: docs matching_order_def admin_request_def plain_request_def guard_status_def)
  have some: "matching_order (params_id ?p) (guard_status Decline) (documents OrderModel one_order_db)
                = Some ?ord"
    by (simp add: docs matching_order_def admin_request_def plain_request_def guard_status_def)
  from status_transitions_guarded
    [where m = OrderModel and t = Decline and env = example_env and req = "?u"
       and db = one_order_db, OF prod.collapse [symmetric]] adm none
  have u: "fst (handler OrderModel Decline example_env ?u one_order_db)
             = \<lparr>res_status = 404, res_body = Json_message (not_found_message OrderModel Decline)\<rparr>"
    "snd (handler OrderModel Decline example_env ?u one_order_db) = one_order_db"
    by blast+
  from status_transitions_guarded
    [where m = OrderModel and t = Decline and env = example_env and req = "?p"
       and db = one_order_db, OF prod.collapse [symmetric]] adm some
  have p: "\<exists>a. (?ord, a) \<in> set (zip (documents OrderModel one_order_db)
                     (documents OrderModel (snd (handler OrderModel Decline example_env ?p one_order_db))))
              \<and> order_status a = new_status Decline \<and> order_id a = order_id ?ord
              \<and> telegramUserId a = telegramUserId ?ord"
    "res_status (fst (handler OrderModel Decline example_env ?p one_order_db))
       = (if env_user_fault example_env = None then 200 else 500)"
    by blast+
  from p(1) obtain a where
    a: "a \<in> set (documents OrderModel (snd (handler OrderModel Decline example_env ?p one_order_db)))"
      "order_status a = ''declined''" "order_id a = ''65a1b2c3d4e5f60718293a4b''"
    by (auto simp: new_status_def dest: set_zip_rightD)
  then have ex: "\<exists>a. a \<in> set (orders (snd (handler OrderModel Decline example_env ?p one_order_db)))
      \<and> order_id a = ''65a1b2c3d4e5f60718293a4b'' \<and> order_status a = ''declined''"
    by (auto simp: documents_def)
  have m1: "matching_order ''65a1b2c3d4e5f60718293a4c'' ''pending'' (orders one_order_db) = None"
    using none by (simp add: documents_def admin_request_def plain_request_def guard_status_def)
  have m2: "matching_order ''65a1b2c3d4e5f60718293a4b'' ''pending'' (orders one_order_db) \<noteq> None"
    using some by (simp add: documents_def admin_request_def plain_request_def guard_status_def)
  have s200: "res_status (fst (handler OrderModel Decline example_env ?p one_order_db)) = 200"
    using p(2) by (simp add: example_env_def)
  have r404: "handler OrderModel Decline example_env ?u one_order_db
       = (\<lparr>res_status = 404, res_body = Json_message ''Request not found''\<rparr>, one_order_db)"
    using u by (simp add: prod_eq_iff not_found_message_def)
  from adm [of "''65a1b2c3d4e5f60718293a4c''"] m1 r404 adm [of "''65a1b2c3d4e5f60718293a4b''"] m2 s200 ex
  show ?thesis by (intro conjI)
qed

end
